theory Spec2Isabelle
  imports Complex_Main
begin

section \<open>Biofouling of microplastics: the kernels \<open>Profiles\<close> and \<open>Kooi\<close>\<close>

text \<open>
  A shallow embedding of the two particle kernels of
  \<^verbatim>\<open>SOAC_regional_Kooi+NEMO_3D_noAdvection.py\<close>.

  Numbers. Every Python \<^verbatim>\<open>float\<close> is modelled as a \<^typ>\<open>real\<close>: the arithmetic is exact,
  without rounding, overflow, infinities or NaN. What Python's float operations raise is
  kept as a branch of the model: \<^verbatim>\<open>x / y\<close> raises \<^verbatim>\<open>ZeroDivisionError\<close> for \<^verbatim>\<open>y == 0\<close>,
  \<^verbatim>\<open>0.0 ** y\<close> raises it for \<^verbatim>\<open>y < 0\<close>, \<^verbatim>\<open>math.log10(x)\<close> raises \<^verbatim>\<open>ValueError\<close> for
  \<^verbatim>\<open>x <= 0\<close>, and a negative float raised to a non-integral power is a \<^verbatim>\<open>complex\<close>, which
  is no real-valued result any more. (Compiled by the particle framework, the same
  operations give an infinity or a NaN where the Python form raises; either way the step
  has no real-valued result, and that is what an error value of the model stands for.)
\<close>

subsection \<open>Errors as values\<close>

datatype py_error =
    ZeroDivisionError
  | ValueError
  | ComplexResult
  | ErrorOutOfBounds

type_synonym 'a result = "py_error + 'a"

definition py_bind :: "'a result \<Rightarrow> ('a \<Rightarrow> 'b result) \<Rightarrow> 'b result" where
  "py_bind m f = (case m of Inl e \<Rightarrow> Inl e | Inr x \<Rightarrow> f x)"

text \<open>\<^verbatim>\<open>x / y\<close> on floats.\<close>

definition py_div :: "real \<Rightarrow> real \<Rightarrow> real result" where
  "py_div x y = (if y = 0 then Inl ZeroDivisionError else Inr (x / y))"

text \<open>
  \<^verbatim>\<open>x ** y\<close> on floats, in the order of the cases of CPython's \<^verbatim>\<open>float_pow\<close>:
  anything to the power 0 is 1; 0 to a negative power raises; a negative base with a
  non-integral exponent gives a complex number; a negative base with an integral exponent
  is the integer power.
\<close>

definition py_pow :: "real \<Rightarrow> real \<Rightarrow> real result" where
  "py_pow x y =
     (if y = 0 then Inr 1
      else if x = 0 then (if y < 0 then Inl ZeroDivisionError else Inr 0)
      else if x < 0 then
        (if y = of_int \<lfloor>y\<rfloor> then Inr (x powi \<lfloor>y\<rfloor>) else Inl ComplexResult)
      else Inr (x powr y))"

text \<open>\<^verbatim>\<open>math.log10(x)\<close>.\<close>

definition py_log10 :: "real \<Rightarrow> real result" where
  "py_log10 x = (if x \<le> 0 then Inl ValueError else Inr (log 10 x))"

subsection \<open>The data model\<close>

text \<open>
  \<^verbatim>\<open>fieldset\<close>: the constants added with \<^verbatim>\<open>fieldset.add_constant\<close> and the gridded fields
  the kernels sample. A field is read at \<^verbatim>\<open>[time, depth, lat, lon]\<close>; the read either
  gives the interpolated value or raises (out of bounds, interpolation error).
\<close>

type_synonym field = "real \<Rightarrow> real \<Rightarrow> real \<Rightarrow> real \<Rightarrow> real result"

record fieldset =
  M_a :: real
  K :: real
  Rho_bf :: real
  V_a :: real
  R20 :: real
  Q10 :: real
  Gamma :: real
  Wt_N :: real
  G :: real
  cons_temperature :: field
  abs_salinity :: field
  d_phy_field :: field
  nd_phy_field :: field
  tpp3_field :: field
  W :: field

text \<open>
  \<^verbatim>\<open>class plastic_particle(JITParticle)\<close>: the variables the class declares, and the
  attributes \<^verbatim>\<open>lon\<close>, \<^verbatim>\<open>lat\<close>, \<^verbatim>\<open>depth\<close>, \<^verbatim>\<open>dt\<close> every particle has. There is no
  attribute for the mortality term \<^verbatim>\<open>a_mort\<close>.
\<close>

record particle =
  lon :: real
  lat :: real
  depth :: real
  dt :: real
  u :: real
  v :: real
  w :: real
  w_adv :: real
  temp :: real
  density :: real
  tpp3 :: real
  d_phy :: real
  nd_phy :: real
  a :: real
  a_coll :: real
  a_growth :: real
  a_resp :: real
  kin_visc :: real
  sw_visc :: real
  vs :: real
  rho_tot :: real
  r_tot :: real
  delta_rho :: real
  vs_init :: real
  r_pl :: real
  rho_pl :: real

text \<open>
  Local variables of \<^verbatim>\<open>Kooi\<close> that are not written to the particle, as they stand when
  the kernel returns.
\<close>

record kooi_locals =
  loc_aa :: real
  loc_mu_aa :: real
  loc_theta_pl :: real
  loc_r_a :: real
  loc_v_tot :: real
  loc_t_bf :: real
  loc_beta_a :: real
  loc_a_mort :: real
  loc_dstar :: real
  loc_w :: real
  loc_z0 :: real

subsection \<open>The constants of the script\<close>

definition med_N2cell :: real where
  "med_N2cell = 356.04 / 10 ^ 9"

text \<open>The \<^verbatim>\<open>fieldset.add_constant\<close> calls of the main script.\<close>

definition add_constants :: "fieldset \<Rightarrow> fieldset" where
  "add_constants fieldset =
     fieldset\<lparr>M_a := 0.39 / 86400,
              K := 1.0306 / 10 ^ 13 / (86400 ^ 2),
              Rho_bf := 1388,
              V_a := 2.0 / 10 ^ 16,
              R20 := 0.1 / 86400,
              Q10 := 2,
              Gamma := 1.728 * 10 ^ 5 / 86400,
              Wt_N := 14.007,
              G := 7.32 * 10 ^ 10 / (86400 ^ 2)\<rparr>"

subsection \<open>The kernel \<open>Profiles\<close>\<close>

text \<open>
  \<^verbatim>\<open>temp ** 2\<close> with the integer exponent 2 is the square. The six field reads come in
  the order of the source, so the first one that raises decides the error.
\<close>

definition Profiles :: "particle \<Rightarrow> fieldset \<Rightarrow> real \<Rightarrow> particle result" where
  "Profiles particle fieldset time =
     py_bind (cons_temperature fieldset time (depth particle) (lat particle) (lon particle)) (\<lambda>temp_v.
     py_bind (d_phy_field fieldset time (depth particle) (lat particle) (lon particle)) (\<lambda>d_phy_v.
     py_bind (nd_phy_field fieldset time (depth particle) (lat particle) (lon particle)) (\<lambda>nd_phy_v.
     py_bind (tpp3_field fieldset time (depth particle) (lat particle) (lon particle)) (\<lambda>tpp3_v.
     py_bind (py_div 1 ((0.157 * (temp_v + 64.993) ^ 2) - 91.296)) (\<lambda>q.
     let mu_w = 4.2844 / 10 ^ 5 + q;
         A = 1.541 + 1.998 / 10 ^ 2 * temp_v - 9.52 / 10 ^ 5 * temp_v ^ 2;
         B = 7.974 - 7.561 / 10 ^ 2 * temp_v + 4.724 / 10 ^ 4 * temp_v ^ 2
     in
     py_bind (abs_salinity fieldset time (depth particle) (lat particle) (lon particle)) (\<lambda>sal.
     let S_sw = sal / 1000;
         sw_visc_v = mu_w * (1 + A * S_sw + B * S_sw ^ 2)
     in
     py_bind (py_div sw_visc_v (density particle)) (\<lambda>kin_visc_v.
     py_bind (W fieldset time (depth particle) (lat particle) (lon particle)) (\<lambda>w_adv_v.
     Inr (particle\<lparr>temp := temp_v, d_phy := d_phy_v, nd_phy := nd_phy_v, tpp3 := tpp3_v,
                    sw_visc := sw_visc_v, kin_visc := kin_visc_v, w_adv := w_adv_v\<rparr>)))))))))"

subsection \<open>The kernel \<open>Kooi\<close>, section by section\<close>

text \<open>
  \<^verbatim>\<open>Kooi\<close> is one straight-line function whose comments divide it into sections. Each
  section is a definition here, taking the locals it reads and giving the locals it sets;
  \<open>Kooi_run\<close> below chains them in the order of the source, so the first operation that
  raises decides the error. A float raised to the float \<^verbatim>\<open>2.\<close> or \<^verbatim>\<open>3.\<close> is the square or
  the cube and never raises; every other power and every division by a computed value goes
  through \<open>py_pow\<close> and \<open>py_div\<close>.
\<close>

text \<open>Lines 56-63, "Ambient algal concentration": the local \<^verbatim>\<open>aa\<close>.\<close>

definition ambient_algae :: "particle \<Rightarrow> fieldset \<Rightarrow> real" where
  "ambient_algae particle fieldset =
     (let wt_N = Wt_N fieldset;
          n0 = nd_phy particle + d_phy particle;
          n = n0 * wt_N;
          n2 = n / med_N2cell
      in if n2 < 0 then 0 else n2)"

text \<open>Lines 66-74, "Primary productivity (algal growth)": the local \<^verbatim>\<open>mu_aa\<close>.\<close>

definition algal_growth :: "particle \<Rightarrow> fieldset \<Rightarrow> real \<Rightarrow> real result" where
  "algal_growth particle fieldset aa =
     (let wt_N = Wt_N fieldset;
          tpp0 = tpp3 particle;
          mu_n0 = tpp0 * wt_N;
          mu_n = mu_n0 / med_N2cell
      in py_bind (py_div mu_n aa) (\<lambda>mu_n2.
         Inr (if mu_n2 < 0 then 0 else mu_n2 / 86400)))"

text \<open>Lines 77-83, "Volumes": the locals \<^verbatim>\<open>(theta_pl, r_a, v_tot, t_bf)\<close>.\<close>

definition volumes :: "particle \<Rightarrow> fieldset \<Rightarrow> (real \<times> real \<times> real \<times> real) result" where
  "volumes particle fieldset =
     (let v_a = V_a fieldset;
          v_pl = (4 / 3) * pi * r_pl particle ^ 3;
          theta_pl = 4 * pi * r_pl particle ^ 2
      in py_bind (py_pow ((3 / 4) * (v_a / pi)) (1 / 3)) (\<lambda>r_a.
         let v_bf = (v_a * a particle) * theta_pl;
             v_tot = v_bf + v_pl
         in py_bind (py_pow (v_tot * (3 / (4 * pi))) (1 / 3)) (\<lambda>c.
            let t_bf = c - r_pl particle
            in Inr (theta_pl, r_a, v_tot, t_bf))))"

text \<open>
  Lines 86-90, "Diffusivity": the locals \<^verbatim>\<open>(r_tot, rho_tot, d_pl, d_a)\<close>. The unused
  \<^verbatim>\<open>theta_tot\<close> of line 88 cannot raise and is left out.
\<close>

definition diffusivity ::
  "particle \<Rightarrow> fieldset \<Rightarrow> real \<Rightarrow> real \<Rightarrow> (real \<times> real \<times> real \<times> real) result" where
  "diffusivity particle fieldset r_a t_bf =
     (let k = K fieldset; rho_bf = Rho_bf fieldset;
          t = temp particle; sw_visc_v = sw_visc particle;
          r_tot_v = r_pl particle + t_bf
      in py_bind (py_div (r_pl particle ^ 3 * rho_pl particle
                            + ((r_pl particle + t_bf) ^ 3 - r_pl particle ^ 3) * rho_bf)
                         ((r_pl particle + t_bf) ^ 3)) (\<lambda>rho_tot_v.
         py_bind (py_div (k * (t + 273.16)) (6 * pi * sw_visc_v * r_tot_v)) (\<lambda>d_pl.
         py_bind (py_div (k * (t + 273.16)) (6 * pi * sw_visc_v * r_a)) (\<lambda>d_a.
         Inr (r_tot_v, rho_tot_v, d_pl, d_a)))))"

text \<open>
  Lines 93-96, "Encounter rates": the local \<^verbatim>\<open>beta_a\<close>. \<^verbatim>\<open>vs\<close> is still the velocity the
  particle came in with.
\<close>

definition encounter_rates ::
  "particle \<Rightarrow> fieldset \<Rightarrow> real \<Rightarrow> real \<Rightarrow> real \<Rightarrow> real \<Rightarrow> real" where
  "encounter_rates particle fieldset r_a r_tot_v d_pl d_a =
     (let gamma = Gamma fieldset;
          beta_abrown = 4 * pi * (d_pl + d_a) * (r_tot_v + r_a);
          beta_ashear = 1.3 * gamma * ((r_tot_v + r_a) ^ 3);
          beta_aset = (1 / 2) * pi * r_tot_v ^ 2 * \<bar>vs particle\<bar>
      in beta_abrown + beta_ashear + beta_aset)"

text \<open>
  Lines 99-107, "Attached algal growth": the local \<^verbatim>\<open>a_mort\<close> and the particle with
  \<^verbatim>\<open>a_coll\<close>, \<^verbatim>\<open>a_growth\<close>, \<^verbatim>\<open>a_resp\<close> written and \<^verbatim>\<open>a\<close> advanced.
\<close>

definition attached_algal_growth ::
  "particle \<Rightarrow> fieldset \<Rightarrow> real \<Rightarrow> real \<Rightarrow> real \<Rightarrow> real \<Rightarrow> (real \<times> particle) result" where
  "attached_algal_growth particle fieldset aa mu_aa theta_pl beta_a =
     (let m_a = M_a fieldset; r20 = R20 fieldset; q10 = Q10 fieldset;
          t = temp particle
      in py_bind (py_div (beta_a * aa) theta_pl) (\<lambda>a_coll_v.
         let a_growth_v = mu_aa * a particle;
             a_mort = m_a * a particle
         in py_bind (py_pow q10 ((t - 20) / 10)) (\<lambda>q10_pow.
            let a_resp_v = q10_pow * r20 * a particle
            in Inr (a_mort,
                    particle\<lparr>a_coll := a_coll_v, a_growth := a_growth_v, a_resp := a_resp_v,
                             a := a particle
                                  + (a_coll_v + a_growth_v - a_mort - a_resp_v) * dt particle\<rparr>))))"

text \<open>Lines 109-111: the locals \<^verbatim>\<open>(delta_rho, dstar)\<close>.\<close>

definition density_anomaly ::
  "particle \<Rightarrow> fieldset \<Rightarrow> real \<Rightarrow> real \<Rightarrow> (real \<times> real) result" where
  "density_anomaly particle fieldset r_tot_v rho_tot_v =
     (let g = G fieldset; kin_visc_v = kin_visc particle; rho_sw = density particle;
          dn = 2 * r_tot_v
      in py_bind (py_div (rho_tot_v - rho_sw) rho_sw) (\<lambda>delta_rho_v.
         py_bind (py_div ((rho_tot_v - rho_sw) * g * dn ^ 3) (rho_sw * kin_visc_v ^ 2)) (\<lambda>dstar.
         Inr (delta_rho_v, dstar))))"

text \<open>
  Lines 113-118: the dimensionless settling velocity \<^verbatim>\<open>w\<close>. \<^verbatim>\<open>math.log10(dstar)\<close> is read
  four times in the one expression; the model reads it once.
\<close>

definition dimensionless_velocity :: "real \<Rightarrow> real result" where
  "dimensionless_velocity dstar =
     (if dstar > 5 * 10 ^ 9 then Inr 1000
      else if dstar < 0.05 then Inr ((dstar ^ 2) * (1.71 / 10 ^ 4))
      else py_bind (py_log10 dstar) (\<lambda>lg.
           py_pow 10 (- 3.76715 + (1.92944 * lg) - (0.09815 * lg ^ 2)
                        - (0.00575 * lg ^ 3) + (0.00056 * lg ^ 4))))"

text \<open>Lines 121-125, "Settling of particle": the local \<^verbatim>\<open>vs\<close> before the depth test.\<close>

definition settling :: "particle \<Rightarrow> fieldset \<Rightarrow> real \<Rightarrow> real \<Rightarrow> real result" where
  "settling particle fieldset w_v delta_rho_v =
     (let g = G fieldset; kin_visc_v = kin_visc particle
      in if delta_rho_v > 0
         then py_pow (g * kin_visc_v * w_v * delta_rho_v) (1 / 3)
         else (let a_del_rho = delta_rho_v * - 1
               in py_bind (py_pow (g * kin_visc_v * w_v * a_del_rho) (1 / 3))
                    (\<lambda>c. Inr (- 1 * c))))"

text \<open>
  Lines 127-134: \<^verbatim>\<open>vs_init\<close> is written, then the depth test. \<open>z\<close> is the depth read at
  line 43, \<open>vs1\<close> the velocity of the section before; the result is \<^verbatim>\<open>z0\<close>, the local
  \<^verbatim>\<open>vs\<close> after the test, and the particle.
\<close>

definition depth_clamp :: "particle \<Rightarrow> real \<Rightarrow> real \<Rightarrow> real \<times> real \<times> particle" where
  "depth_clamp particle z vs1 =
     (let particle1 = particle\<lparr>vs_init := vs1\<rparr>;
          z0 = z + vs1 * dt particle1
      in if z0 \<le> 0.6 \<or> z0 \<ge> 4000
         then (z0, 0, particle1\<lparr>depth := 0.6\<rparr>)
         else (z0, vs1, particle1\<lparr>depth := depth particle1 + vs1 * dt particle1\<rparr>))"

subsection \<open>The kernel \<open>Kooi\<close>\<close>

text \<open>
  The sections in the order of the source, then lines 136-139. The locals \<^verbatim>\<open>g\<close>,
  \<^verbatim>\<open>kin_visc\<close>, \<^verbatim>\<open>rho_sw\<close> and \<^verbatim>\<open>z\<close> are read from the incoming particle (lines 33-49);
  the writes go to the particle in the order of the source. The result pairs the locals
  with the particle as the kernel leaves it.
\<close>

definition Kooi_run :: "particle \<Rightarrow> fieldset \<Rightarrow> real \<Rightarrow> (kooi_locals \<times> particle) result" where
  "Kooi_run particle fieldset time =
    (let z = depth particle;
         aa = ambient_algae particle fieldset
     in
     py_bind (algal_growth particle fieldset aa) (\<lambda>mu_aa.
     py_bind (volumes particle fieldset) (\<lambda>(theta_pl, r_a, v_tot, t_bf).
     py_bind (diffusivity particle fieldset r_a t_bf) (\<lambda>(r_tot_v, rho_tot_v, d_pl, d_a).
     let beta_a = encounter_rates particle fieldset r_a r_tot_v d_pl d_a
     in
     py_bind (attached_algal_growth particle fieldset aa mu_aa theta_pl beta_a) (\<lambda>(a_mort, particle1).
     py_bind (density_anomaly particle fieldset r_tot_v rho_tot_v) (\<lambda>(delta_rho_v, dstar).
     py_bind (dimensionless_velocity dstar) (\<lambda>w_v.
     py_bind (settling particle fieldset w_v delta_rho_v) (\<lambda>vs1.
     let (z0, vs2, particle2) = depth_clamp particle1 z vs1
     in
     Inr (\<lparr>loc_aa = aa, loc_mu_aa = mu_aa, loc_theta_pl = theta_pl, loc_r_a = r_a,
           loc_v_tot = v_tot, loc_t_bf = t_bf, loc_beta_a = beta_a, loc_a_mort = a_mort,
           loc_dstar = dstar, loc_w = w_v, loc_z0 = z0\<rparr>,
          particle2\<lparr>vs := vs2, rho_tot := rho_tot_v, r_tot := r_tot_v,
                     delta_rho := delta_rho_v\<rparr>)))))))))"

text \<open>The kernel itself: the particle it leaves, or the error it raises.\<close>

definition Kooi :: "particle \<Rightarrow> fieldset \<Rightarrow> real \<Rightarrow> particle result" where
  "Kooi particle fieldset time = py_bind (Kooi_run particle fieldset time) (\<lambda>(l, p). Inr p)"

subsection \<open>A particle of the script\<close>

text \<open>
  A particle as \<^verbatim>\<open>ParticleSet.from_list\<close> releases it in the main script: at the release
  depth 0.6 and a corner of the NPSG release grid, with \<^verbatim>\<open>r_pls[2]\<close> and \<^verbatim>\<open>rho_pls[2]\<close>,
  the timestep \<^verbatim>\<open>secsdt\<close>, and every other variable at its initial 0.
\<close>

definition released_particle :: particle where
  "released_particle =
     \<lparr>lon = - 135, lat = 28, depth = 0.6, dt = 60,
      u = 0, v = 0, w = 0, w_adv = 0, temp = 0, density = 0, tpp3 = 0, d_phy = 0, nd_phy = 0,
      a = 0, a_coll = 0, a_growth = 0, a_resp = 0, kin_visc = 0, sw_visc = 0, vs = 0,
      rho_tot = 920, r_tot = 1 / 10 ^ 4, delta_rho = 0, vs_init = 0,
      r_pl = 1 / 10 ^ 4, rho_pl = 920\<rparr>"

text \<open>
  The same particle in surface water of 15 degrees and density 1025 with some phytoplankton,
  as the kernels that run before \<^verbatim>\<open>Kooi\<close> would leave it.
\<close>

definition sampled_particle :: particle where
  "sampled_particle =
     released_particle\<lparr>temp := 15, density := 1025, nd_phy := 0.1, d_phy := 0.05,
                        tpp3 := 0.02, sw_visc := 0.00122, kin_visc := 0.00000119\<rparr>"

text \<open>A fieldset with the constants of the script whose fields are uniform.\<close>

definition uniform_field :: "real \<Rightarrow> field" where
  "uniform_field c = (\<lambda>time depth lat lon. Inr c)"

definition uniform_fieldset :: fieldset where
  "uniform_fieldset =
     add_constants
       \<lparr>M_a = 0, K = 0, Rho_bf = 0, V_a = 0, R20 = 0, Q10 = 0, Gamma = 0, Wt_N = 0, G = 0,
        cons_temperature = uniform_field 15,
        abs_salinity = uniform_field 35,
        d_phy_field = uniform_field 0.05,
        nd_phy_field = uniform_field 0.1,
        tpp3_field = uniform_field 0.02,
        W = uniform_field 0\<rparr>"

section \<open>What a run that returns has computed\<close>

subsection \<open>The error operations\<close>

lemma py_bind_Inr_iff: "py_bind m f = Inr y \<longleftrightarrow> (\<exists>x. m = Inr x \<and> f x = Inr y)"
  by (cases m) (simp_all add: py_bind_def)

lemma py_bind_Inl_iff: "py_bind m f = Inl e \<longleftrightarrow> m = Inl e \<or> (\<exists>x. m = Inr x \<and> f x = Inl e)"
  by (cases m) (simp_all add: py_bind_def)

lemma py_div_Inr_iff: "py_div x y = Inr q \<longleftrightarrow> y \<noteq> 0 \<and> q = x / y"
  by (auto simp: py_div_def)

lemma py_pow_third: "py_pow x (1 / 3) = (if x < 0 then Inl ComplexResult else Inr (x powr (1 / 3)))"
  by (auto simp: py_pow_def)

lemma py_pow_third_Inr_iff: "py_pow x (1 / 3) = Inr c \<longleftrightarrow> 0 \<le> x \<and> c = x powr (1 / 3)"
  by (auto simp: py_pow_third)

lemma py_pow_pos: "0 < x \<Longrightarrow> py_pow x y = Inr (x powr y)"
  by (auto simp: py_pow_def)

lemma algal_growth_Inr_iff:
  "algal_growth p fs aa = Inr mu_aa \<longleftrightarrow>
     aa \<noteq> 0 \<and> mu_aa = (let mu_n2 = tpp3 p * Wt_N fs / med_N2cell / aa
                         in if mu_n2 < 0 then 0 else mu_n2 / 86400)"
  by (auto simp: algal_growth_def Let_def py_bind_Inr_iff py_div_Inr_iff)

lemma volumes_Inr_iff:
  "volumes p fs = Inr (theta_pl, r_a, v_tot, t_bf) \<longleftrightarrow>
     0 \<le> (3 / 4) * (V_a fs / pi) \<and> 0 \<le> v_tot * (3 / (4 * pi)) \<and>
     theta_pl = 4 * pi * r_pl p ^ 2 \<and>
     r_a = ((3 / 4) * (V_a fs / pi)) powr (1 / 3) \<and>
     v_tot = V_a fs * a p * theta_pl + (4 / 3) * pi * r_pl p ^ 3 \<and>
     t_bf = (v_tot * (3 / (4 * pi))) powr (1 / 3) - r_pl p"
  unfolding volumes_def Let_def py_bind_Inr_iff py_pow_third_Inr_iff
  by auto

lemma pi_not_le_zero: "\<not> pi \<le> 0"
  using pi_gt_zero by linarith

lemma scaled_nonneg_iff: "0 \<le> x * (3 / (4 * pi)) \<longleftrightarrow> 0 \<le> x"
  by (simp add: zero_le_mult_iff zero_le_divide_iff pi_not_le_zero)

lemma scaled_nonneg_iff2: "0 \<le> (3 / 4) * (x / pi) \<longleftrightarrow> 0 \<le> x"
  by (simp add: zero_le_mult_iff zero_le_divide_iff pi_not_le_zero)

lemma diffusivity_Inr_iff:
  "diffusivity p fs r_a t_bf = Inr (r_tot_v, rho_tot_v, d_pl, d_a) \<longleftrightarrow>
     r_pl p + t_bf \<noteq> 0 \<and> sw_visc p \<noteq> 0 \<and> r_a \<noteq> 0 \<and>
     r_tot_v = r_pl p + t_bf \<and>
     rho_tot_v = (r_pl p ^ 3 * rho_pl p + ((r_pl p + t_bf) ^ 3 - r_pl p ^ 3) * Rho_bf fs)
                   / (r_pl p + t_bf) ^ 3 \<and>
     d_pl = K fs * (temp p + 273.16) / (6 * pi * sw_visc p * r_tot_v) \<and>
     d_a = K fs * (temp p + 273.16) / (6 * pi * sw_visc p * r_a)"
  by (auto simp: diffusivity_def Let_def py_bind_Inr_iff py_div_Inr_iff)

lemma density_anomaly_Inr_iff:
  "density_anomaly p fs r_tot_v rho_tot_v = Inr (delta_rho_v, dstar) \<longleftrightarrow>
     density p \<noteq> 0 \<and> kin_visc p \<noteq> 0 \<and>
     delta_rho_v = (rho_tot_v - density p) / density p \<and>
     dstar = (rho_tot_v - density p) * G fs * (2 * r_tot_v) ^ 3 / (density p * kin_visc p ^ 2)"
  by (auto simp: density_anomaly_def Let_def py_bind_Inr_iff py_div_Inr_iff)

lemma attached_algal_growth_Inr:
  assumes "attached_algal_growth p fs aa mu_aa theta_pl beta_a = Inr (a_mort, p1)"
  obtains q10_pow where
    "theta_pl \<noteq> 0" "py_pow (Q10 fs) ((temp p - 20) / 10) = Inr q10_pow"
    "a_mort = M_a fs * a p"
    "p1 = p\<lparr>a_coll := beta_a * aa / theta_pl, a_growth := mu_aa * a p,
            a_resp := q10_pow * R20 fs * a p,
            a := a p + (beta_a * aa / theta_pl + mu_aa * a p - M_a fs * a p
                         - q10_pow * R20 fs * a p) * dt p\<rparr>"
  using assms
  by (auto simp: attached_algal_growth_def Let_def py_bind_Inr_iff py_div_Inr_iff)

lemma py_bind_Inr [simp]: "py_bind (Inr x) f = f x"
  by (simp add: py_bind_def)

lemma py_bind_Inl [simp]: "py_bind (Inl e) f = Inl e"
  by (simp add: py_bind_def)

lemma Kooi_run_Inr_iff:
  "Kooi_run p fs time = Inr (l, p') \<longleftrightarrow>
   (\<exists>mu_aa theta_pl r_a v_tot t_bf r_tot_v rho_tot_v d_pl d_a a_mort p1 delta_rho_v dstar w_v vs1.
      algal_growth p fs (ambient_algae p fs) = Inr mu_aa
    \<and> volumes p fs = Inr (theta_pl, r_a, v_tot, t_bf)
    \<and> diffusivity p fs r_a t_bf = Inr (r_tot_v, rho_tot_v, d_pl, d_a)
    \<and> attached_algal_growth p fs (ambient_algae p fs) mu_aa theta_pl
           (encounter_rates p fs r_a r_tot_v d_pl d_a) = Inr (a_mort, p1)
    \<and> density_anomaly p fs r_tot_v rho_tot_v = Inr (delta_rho_v, dstar)
    \<and> dimensionless_velocity dstar = Inr w_v
    \<and> settling p fs w_v delta_rho_v = Inr vs1
    \<and> l = \<lparr>loc_aa = ambient_algae p fs, loc_mu_aa = mu_aa, loc_theta_pl = theta_pl,
               loc_r_a = r_a, loc_v_tot = v_tot, loc_t_bf = t_bf,
               loc_beta_a = encounter_rates p fs r_a r_tot_v d_pl d_a, loc_a_mort = a_mort,
               loc_dstar = dstar, loc_w = w_v,
               loc_z0 = fst (depth_clamp p1 (depth p) vs1)\<rparr>
    \<and> p' = (snd (snd (depth_clamp p1 (depth p) vs1)))
             \<lparr>vs := fst (snd (depth_clamp p1 (depth p) vs1)),
              rho_tot := rho_tot_v, r_tot := r_tot_v, delta_rho := delta_rho_v\<rparr>)"
  by (auto simp: Kooi_run_def Let_def py_bind_Inr_iff case_prod_beta)

lemma Kooi_Inr_iff: "Kooi p fs time = Inr p' \<longleftrightarrow> (\<exists>l. Kooi_run p fs time = Inr (l, p'))"
  by (auto simp: Kooi_def py_bind_Inr_iff)

lemma depth_clamp_eq:
  "depth_clamp q z vs1 =
     (z + vs1 * dt q,
      (if z + vs1 * dt q \<le> 0.6 \<or> 4000 \<le> z + vs1 * dt q then 0 else vs1),
      q\<lparr>vs_init := vs1,
        depth := (if z + vs1 * dt q \<le> 0.6 \<or> 4000 \<le> z + vs1 * dt q
                  then 0.6 else depth q + vs1 * dt q)\<rparr>)"
  by (simp add: depth_clamp_def Let_def)

lemma Kooi_run_InrE:
  assumes "Kooi_run p fs time = Inr (l, p')"
  obtains mu_aa theta_pl r_a v_tot t_bf r_tot_v rho_tot_v d_pl d_a q10_pow
          delta_rho_v dstar w_v vs1
  where "algal_growth p fs (ambient_algae p fs) = Inr mu_aa"
    and "volumes p fs = Inr (theta_pl, r_a, v_tot, t_bf)"
    and "diffusivity p fs r_a t_bf = Inr (r_tot_v, rho_tot_v, d_pl, d_a)"
    and "theta_pl \<noteq> 0"
    and "py_pow (Q10 fs) ((temp p - 20) / 10) = Inr q10_pow"
    and "density_anomaly p fs r_tot_v rho_tot_v = Inr (delta_rho_v, dstar)"
    and "dimensionless_velocity dstar = Inr w_v"
    and "settling p fs w_v delta_rho_v = Inr vs1"
    and "l = \<lparr>loc_aa = ambient_algae p fs, loc_mu_aa = mu_aa, loc_theta_pl = theta_pl,
               loc_r_a = r_a, loc_v_tot = v_tot, loc_t_bf = t_bf,
               loc_beta_a = encounter_rates p fs r_a r_tot_v d_pl d_a,
               loc_a_mort = M_a fs * a p,
               loc_dstar = dstar, loc_w = w_v, loc_z0 = depth p + vs1 * dt p\<rparr>"
    and "p' = p\<lparr>a_coll := encounter_rates p fs r_a r_tot_v d_pl d_a * ambient_algae p fs / theta_pl,
               a_growth := mu_aa * a p,
               a_resp := q10_pow * R20 fs * a p,
               a := a p + (encounter_rates p fs r_a r_tot_v d_pl d_a * ambient_algae p fs / theta_pl
                           + mu_aa * a p - M_a fs * a p - q10_pow * R20 fs * a p) * dt p,
               vs_init := vs1,
               depth := (if depth p + vs1 * dt p \<le> 0.6 \<or> 4000 \<le> depth p + vs1 * dt p
                         then 0.6 else depth p + vs1 * dt p),
               vs := (if depth p + vs1 * dt p \<le> 0.6 \<or> 4000 \<le> depth p + vs1 * dt p
                      then 0 else vs1),
               rho_tot := rho_tot_v, r_tot := r_tot_v, delta_rho := delta_rho_v\<rparr>"
proof -
  from assms obtain mu_aa theta_pl r_a v_tot t_bf r_tot_v rho_tot_v d_pl d_a a_mort p1
      delta_rho_v dstar w_v vs1
    where s1: "algal_growth p fs (ambient_algae p fs) = Inr mu_aa"
      and s2: "volumes p fs = Inr (theta_pl, r_a, v_tot, t_bf)"
      and s3: "diffusivity p fs r_a t_bf = Inr (r_tot_v, rho_tot_v, d_pl, d_a)"
      and s4: "attached_algal_growth p fs (ambient_algae p fs) mu_aa theta_pl
                 (encounter_rates p fs r_a r_tot_v d_pl d_a) = Inr (a_mort, p1)"
      and s5: "density_anomaly p fs r_tot_v rho_tot_v = Inr (delta_rho_v, dstar)"
      and s6: "dimensionless_velocity dstar = Inr w_v"
      and s7: "settling p fs w_v delta_rho_v = Inr vs1"
      and l: "l = \<lparr>loc_aa = ambient_algae p fs, loc_mu_aa = mu_aa, loc_theta_pl = theta_pl,
               loc_r_a = r_a, loc_v_tot = v_tot, loc_t_bf = t_bf,
               loc_beta_a = encounter_rates p fs r_a r_tot_v d_pl d_a, loc_a_mort = a_mort,
               loc_dstar = dstar, loc_w = w_v,
               loc_z0 = fst (depth_clamp p1 (depth p) vs1)\<rparr>"
      and p': "p' = (snd (snd (depth_clamp p1 (depth p) vs1)))
             \<lparr>vs := fst (snd (depth_clamp p1 (depth p) vs1)),
              rho_tot := rho_tot_v, r_tot := r_tot_v, delta_rho := delta_rho_v\<rparr>"
    unfolding Kooi_run_Inr_iff by blast
  from s4 obtain q10_pow where
        t: "theta_pl \<noteq> 0" and q: "py_pow (Q10 fs) ((temp p - 20) / 10) = Inr q10_pow"
    and m: "a_mort = M_a fs * a p"
    and p1: "p1 = p\<lparr>a_coll := encounter_rates p fs r_a r_tot_v d_pl d_a * ambient_algae p fs / theta_pl,
            a_growth := mu_aa * a p,
            a_resp := q10_pow * R20 fs * a p,
            a := a p + (encounter_rates p fs r_a r_tot_v d_pl d_a * ambient_algae p fs / theta_pl
                        + mu_aa * a p - M_a fs * a p - q10_pow * R20 fs * a p) * dt p\<rparr>"
    by (rule attached_algal_growth_Inr)
  have l': "l = \<lparr>loc_aa = ambient_algae p fs, loc_mu_aa = mu_aa, loc_theta_pl = theta_pl,
               loc_r_a = r_a, loc_v_tot = v_tot, loc_t_bf = t_bf,
               loc_beta_a = encounter_rates p fs r_a r_tot_v d_pl d_a,
               loc_a_mort = M_a fs * a p,
               loc_dstar = dstar, loc_w = w_v, loc_z0 = depth p + vs1 * dt p\<rparr>"
    unfolding l m p1 depth_clamp_eq by simp
  have p'': "p' = p\<lparr>a_coll := encounter_rates p fs r_a r_tot_v d_pl d_a * ambient_algae p fs / theta_pl,
               a_growth := mu_aa * a p,
               a_resp := q10_pow * R20 fs * a p,
               a := a p + (encounter_rates p fs r_a r_tot_v d_pl d_a * ambient_algae p fs / theta_pl
                           + mu_aa * a p - M_a fs * a p - q10_pow * R20 fs * a p) * dt p,
               vs_init := vs1,
               depth := (if depth p + vs1 * dt p \<le> 0.6 \<or> 4000 \<le> depth p + vs1 * dt p
                         then 0.6 else depth p + vs1 * dt p),
               vs := (if depth p + vs1 * dt p \<le> 0.6 \<or> 4000 \<le> depth p + vs1 * dt p
                      then 0 else vs1),
               rho_tot := rho_tot_v, r_tot := r_tot_v, delta_rho := delta_rho_v\<rparr>"
    unfolding p' p1 depth_clamp_eq by simp
  from s1 s2 s3 t q s5 s6 s7 l' p'' show thesis by (rule that)
qed

subsection \<open>Geometry and signs\<close>

lemma cube_powr_third: "0 \<le> x \<Longrightarrow> (x ^ 3) powr (1 / 3) = (x::real)"
proof (cases "x = 0")
  case True
  then show ?thesis by simp
next
  case False
  assume "0 \<le> x"
  with False have pos: "0 < x" by simp
  have "(x ^ 3) powr (1 / 3) = (x powr 3) powr (1 / 3)"
    using pos by simp
  also have "\<dots> = x powr 1"
    by (simp add: powr_powr)
  finally show ?thesis using pos by simp
qed

lemma volume_balance:
  "(V_a fs * a p * (4 * pi * r_pl p ^ 2) + (4 / 3) * pi * r_pl p ^ 3) * (3 / (4 * pi))
     = 3 * V_a fs * a p * r_pl p ^ 2 + r_pl p ^ 3"
  using pi_gt_zero by (simp add: field_simps)

lemma volumes_t_bf_nonneg:
  assumes "volumes p fs = Inr (theta_pl, r_a, v_tot, t_bf)" and "0 \<le> a p" and "0 \<le> r_pl p"
  shows "0 \<le> t_bf"
proof -
  from assms(1) have va: "0 \<le> V_a fs"
    and t: "t_bf = ((V_a fs * a p * (4 * pi * r_pl p ^ 2) + (4 / 3) * pi * r_pl p ^ 3)
                     * (3 / (4 * pi))) powr (1 / 3) - r_pl p"
    unfolding volumes_Inr_iff scaled_nonneg_iff2 by blast+
  have "r_pl p ^ 3 \<le> 3 * V_a fs * a p * r_pl p ^ 2 + r_pl p ^ 3"
    using va assms(2) by simp
  then have "(r_pl p ^ 3) powr (1 / 3) \<le> (3 * V_a fs * a p * r_pl p ^ 2 + r_pl p ^ 3) powr (1 / 3)"
    using assms(3) by (intro powr_mono2) simp_all
  then show ?thesis
    unfolding t volume_balance using assms(3) by (simp add: cube_powr_third)
qed

lemma dimensionless_velocity_eq:
  "dimensionless_velocity dstar =
     Inr (if dstar > 5 * 10 ^ 9 then 1000
          else if dstar < 0.05 then (dstar ^ 2) * (1.71 / 10 ^ 4)
          else 10 powr (- 3.76715 + (1.92944 * log 10 dstar) - (0.09815 * log 10 dstar ^ 2)
                          - (0.00575 * log 10 dstar ^ 3) + (0.00056 * log 10 dstar ^ 4)))"
proof -
  have "py_log10 dstar = Inr (log 10 dstar)" if "\<not> dstar < 0.05"
    using that by (simp add: py_log10_def)
  then show ?thesis
    unfolding dimensionless_velocity_def by (simp add: py_pow_pos)
qed

lemma dimensionless_velocity_sign:
  assumes "dimensionless_velocity dstar = Inr w_v"
  shows "0 \<le> w_v" and "w_v = 0 \<longleftrightarrow> dstar = 0"
proof -
  from assms have w: "w_v = (if dstar > 5 * 10 ^ 9 then 1000
          else if dstar < 0.05 then (dstar ^ 2) * (1.71 / 10 ^ 4)
          else 10 powr (- 3.76715 + (1.92944 * log 10 dstar) - (0.09815 * log 10 dstar ^ 2)
                          - (0.00575 * log 10 dstar ^ 3) + (0.00056 * log 10 dstar ^ 4)))"
    unfolding dimensionless_velocity_eq by simp
  show "0 \<le> w_v" unfolding w by simp
  show "w_v = 0 \<longleftrightarrow> dstar = 0" unfolding w by auto
qed

lemma settling_sign:
  assumes "settling p fs w_v delta_rho_v = Inr vs1" and "0 < G fs" and "0 < kin_visc p"
    and "0 \<le> w_v"
  shows "delta_rho_v = 0 \<or> w_v = 0 \<Longrightarrow> vs1 = 0"
    and "0 < delta_rho_v \<Longrightarrow> w_v \<noteq> 0 \<Longrightarrow> 0 < vs1"
    and "delta_rho_v < 0 \<Longrightarrow> w_v \<noteq> 0 \<Longrightarrow> vs1 < 0"
  using assms
  by (auto simp: settling_def Let_def py_bind_Inr_iff py_pow_third_Inr_iff split: if_splits)

subsection \<open>When the kernel returns\<close>

lemma attached_algal_growth_total:
  assumes "theta_pl \<noteq> 0" and "0 < Q10 fs"
  shows "\<exists>r. attached_algal_growth p fs aa mu_aa theta_pl beta_a = Inr r"
  using assms by (simp add: attached_algal_growth_def Let_def py_div_def py_pow_pos)

lemma settling_total:
  assumes "0 \<le> G fs * kin_visc p" and "0 \<le> w_v"
  shows "\<exists>vs1. settling p fs w_v delta_rho_v = Inr vs1"
proof (cases "0 < delta_rho_v")
  case True
  then have "0 \<le> G fs * kin_visc p * w_v * delta_rho_v"
    using assms by simp
  then have "py_pow (G fs * kin_visc p * w_v * delta_rho_v) (1 / 3)
               = Inr ((G fs * kin_visc p * w_v * delta_rho_v) powr (1 / 3))"
    by (simp only: py_pow_third_Inr_iff simp_thms)
  then show ?thesis
    unfolding settling_def Let_def using True by (simp only: if_True) blast
next
  case False
  have "0 \<le> (G fs * kin_visc p * w_v) * (- delta_rho_v)"
    using False by (intro mult_nonneg_nonneg [OF mult_nonneg_nonneg [OF assms]]) simp
  also have "(G fs * kin_visc p * w_v) * (- delta_rho_v)
               = G fs * kin_visc p * w_v * (delta_rho_v * - 1)"
    by simp
  finally have "py_pow (G fs * kin_visc p * w_v * (delta_rho_v * - 1)) (1 / 3)
               = Inr ((G fs * kin_visc p * w_v * (delta_rho_v * - 1)) powr (1 / 3))"
    by (simp only: py_pow_third_Inr_iff simp_thms)
  then show ?thesis
    unfolding settling_def Let_def using False by (simp only: if_False py_bind_Inr) blast
qed

lemma Kooi_run_succeeds:
  assumes alg: "0 < nd_phy p + d_phy p" and wt: "0 < Wt_N fs"
    and va: "0 < V_a fs" and a: "0 \<le> a p" and r: "0 < r_pl p"
    and sw: "sw_visc p \<noteq> 0" and q: "0 < Q10 fs"
    and rho: "density p \<noteq> 0" and kv: "kin_visc p \<noteq> 0" and g: "0 \<le> G fs * kin_visc p"
  shows "\<exists>l p'. Kooi_run p fs time = Inr (l, p')"
proof -
  define n2 where "n2 = (nd_phy p + d_phy p) * Wt_N fs / med_N2cell"
  have "0 < n2"
    unfolding n2_def using alg wt by (simp add: med_N2cell_def)
  moreover have "ambient_algae p fs = (if n2 < 0 then 0 else n2)"
    by (simp add: ambient_algae_def Let_def n2_def)
  ultimately have aa: "ambient_algae p fs \<noteq> 0"
    by simp
  then obtain mu_aa where s1: "algal_growth p fs (ambient_algae p fs) = Inr mu_aa"
    by (simp add: algal_growth_Inr_iff)
  define theta_pl where "theta_pl = 4 * pi * r_pl p ^ 2"
  define r_a where "r_a = ((3 / 4) * (V_a fs / pi)) powr (1 / 3)"
  define v_tot where "v_tot = V_a fs * a p * theta_pl + (4 / 3) * pi * r_pl p ^ 3"
  define t_bf where "t_bf = (v_tot * (3 / (4 * pi))) powr (1 / 3) - r_pl p"
  have theta: "0 < theta_pl" using r by (simp add: theta_pl_def)
  have vpos: "0 < v_tot"
    unfolding v_tot_def using va a r theta
    by (intro add_nonneg_pos mult_nonneg_nonneg mult_pos_pos) simp_all
  have s2: "volumes p fs = Inr (theta_pl, r_a, v_tot, t_bf)"
    unfolding volumes_Inr_iff scaled_nonneg_iff scaled_nonneg_iff2
    using va vpos by (simp add: theta_pl_def r_a_def v_tot_def t_bf_def)
  from vpos have "(v_tot * (3 / (4 * pi))) powr (1 / 3) \<noteq> 0" by simp
  then have rtot: "r_pl p + t_bf \<noteq> 0" by (simp add: t_bf_def)
  from va have ra: "r_a \<noteq> 0" by (simp add: r_a_def)
  obtain r_tot_v rho_tot_v d_pl d_a
    where s3: "diffusivity p fs r_a t_bf = Inr (r_tot_v, rho_tot_v, d_pl, d_a)"
    using rtot ra sw by (simp add: diffusivity_Inr_iff)
  obtain a_mort p1 where s4: "attached_algal_growth p fs (ambient_algae p fs) mu_aa theta_pl
           (encounter_rates p fs r_a r_tot_v d_pl d_a) = Inr (a_mort, p1)"
    using attached_algal_growth_total [of theta_pl fs p] theta q by fastforce
  obtain delta_rho_v dstar
    where s5: "density_anomaly p fs r_tot_v rho_tot_v = Inr (delta_rho_v, dstar)"
    using rho kv by (simp add: density_anomaly_Inr_iff)
  obtain w_v where s6: "dimensionless_velocity dstar = Inr w_v"
    by (simp add: dimensionless_velocity_eq)
  then have "0 \<le> w_v" by (rule dimensionless_velocity_sign)
  then obtain vs1 where s7: "settling p fs w_v delta_rho_v = Inr vs1"
    using settling_total [OF g] by blast
  show ?thesis
    unfolding Kooi_run_Inr_iff using s1 s2 s3 s4 s5 s6 s7 by blast
qed

lemma Kooi_run_r_tot:
  assumes "Kooi_run p fs time = Inr (l, p')"
  shows "r_tot p' = r_pl p + loc_t_bf l"
    and "r_tot p' = (loc_v_tot l * (3 / (4 * pi))) powr (1 / 3)"
    and "0 < r_tot p'"
    and "loc_t_bf l = (loc_v_tot l * (3 / (4 * pi))) powr (1 / 3) - r_pl p"
    and "loc_v_tot l = V_a fs * a p * loc_theta_pl l + (4 / 3) * pi * r_pl p ^ 3"
    and "loc_theta_pl l = 4 * pi * r_pl p ^ 2"
proof -
  from assms obtain mu_aa theta_pl r_a v_tot t_bf r_tot_v rho_tot_v d_pl d_a q10_pow
          delta_rho_v dstar w_v vs1 :: real
  where s2: "volumes p fs = Inr (theta_pl, r_a, v_tot, t_bf)"
    and s3: "diffusivity p fs r_a t_bf = Inr (r_tot_v, rho_tot_v, d_pl, d_a)"
    and l: "l = \<lparr>loc_aa = ambient_algae p fs, loc_mu_aa = mu_aa, loc_theta_pl = theta_pl,
               loc_r_a = r_a, loc_v_tot = v_tot, loc_t_bf = t_bf,
               loc_beta_a = encounter_rates p fs r_a r_tot_v d_pl d_a,
               loc_a_mort = M_a fs * a p,
               loc_dstar = dstar, loc_w = w_v, loc_z0 = depth p + vs1 * dt p\<rparr>"
    and p': "p' = p\<lparr>a_coll := encounter_rates p fs r_a r_tot_v d_pl d_a * ambient_algae p fs / theta_pl,
               a_growth := mu_aa * a p,
               a_resp := q10_pow * R20 fs * a p,
               a := a p + (encounter_rates p fs r_a r_tot_v d_pl d_a * ambient_algae p fs / theta_pl
                           + mu_aa * a p - M_a fs * a p - q10_pow * R20 fs * a p) * dt p,
               vs_init := vs1,
               depth := (if depth p + vs1 * dt p \<le> 0.6 \<or> 4000 \<le> depth p + vs1 * dt p
                         then 0.6 else depth p + vs1 * dt p),
               vs := (if depth p + vs1 * dt p \<le> 0.6 \<or> 4000 \<le> depth p + vs1 * dt p
                      then 0 else vs1),
               rho_tot := rho_tot_v, r_tot := r_tot_v, delta_rho := delta_rho_v\<rparr>"
    by (rule Kooi_run_InrE)
  from s2 have th: "theta_pl = 4 * pi * r_pl p ^ 2"
    and vt: "v_tot = V_a fs * a p * theta_pl + (4 / 3) * pi * r_pl p ^ 3"
    and tb: "t_bf = (v_tot * (3 / (4 * pi))) powr (1 / 3) - r_pl p"
    unfolding volumes_Inr_iff by blast+
  from s3 have rt: "r_tot_v = r_pl p + t_bf" and nz: "r_pl p + t_bf \<noteq> 0"
    unfolding diffusivity_Inr_iff by blast+
  have c: "r_tot_v = (v_tot * (3 / (4 * pi))) powr (1 / 3)"
    unfolding rt tb by simp
  show "r_tot p' = r_pl p + loc_t_bf l" by (simp add: p' l rt)
  show "r_tot p' = (loc_v_tot l * (3 / (4 * pi))) powr (1 / 3)" using c by (simp add: p' l)
  have "0 \<le> r_tot_v" unfolding c by simp
  with nz rt show "0 < r_tot p'" by (simp add: p')
  show "loc_t_bf l = (loc_v_tot l * (3 / (4 * pi))) powr (1 / 3) - r_pl p" using tb by (simp add: l)
  show "loc_v_tot l = V_a fs * a p * loc_theta_pl l + (4 / 3) * pi * r_pl p ^ 3" using vt by (simp add: l)
  show "loc_theta_pl l = 4 * pi * r_pl p ^ 2" using th by (simp add: l)
qed

lemma Kooi_run_sections:
  assumes "Kooi_run p fs time = Inr (l, p')"
  obtains d_pl d_a q10_pow
  where "loc_aa l = ambient_algae p fs"
    and "algal_growth p fs (loc_aa l) = Inr (loc_mu_aa l)"
    and "volumes p fs = Inr (loc_theta_pl l, loc_r_a l, loc_v_tot l, loc_t_bf l)"
    and "diffusivity p fs (loc_r_a l) (loc_t_bf l) = Inr (r_tot p', rho_tot p', d_pl, d_a)"
    and "loc_beta_a l = encounter_rates p fs (loc_r_a l) (r_tot p') d_pl d_a"
    and "loc_theta_pl l \<noteq> 0"
    and "py_pow (Q10 fs) ((temp p - 20) / 10) = Inr q10_pow"
    and "loc_a_mort l = M_a fs * a p"
    and "a_coll p' = loc_beta_a l * loc_aa l / loc_theta_pl l"
    and "a_growth p' = loc_mu_aa l * a p"
    and "a_resp p' = q10_pow * R20 fs * a p"
    and "a p' = a p + (a_coll p' + a_growth p' - loc_a_mort l - a_resp p') * dt p"
    and "density_anomaly p fs (r_tot p') (rho_tot p') = Inr (delta_rho p', loc_dstar l)"
    and "dimensionless_velocity (loc_dstar l) = Inr (loc_w l)"
    and "settling p fs (loc_w l) (delta_rho p') = Inr (vs_init p')"
    and "loc_z0 l = depth p + vs_init p' * dt p"
proof -
  from assms obtain mu_aa theta_pl r_a v_tot t_bf r_tot_v rho_tot_v d_pl d_a q10_pow
          delta_rho_v dstar w_v vs1
  where s: "algal_growth p fs (ambient_algae p fs) = Inr mu_aa"
      "volumes p fs = Inr (theta_pl, r_a, v_tot, t_bf)"
      "diffusivity p fs r_a t_bf = Inr (r_tot_v, rho_tot_v, d_pl, d_a)"
      "theta_pl \<noteq> 0"
      "py_pow (Q10 fs) ((temp p - 20) / 10) = Inr q10_pow"
      "density_anomaly p fs r_tot_v rho_tot_v = Inr (delta_rho_v, dstar)"
      "dimensionless_velocity dstar = Inr w_v"
      "settling p fs w_v delta_rho_v = Inr vs1"
    and l: "l = \<lparr>loc_aa = ambient_algae p fs, loc_mu_aa = mu_aa, loc_theta_pl = theta_pl,
               loc_r_a = r_a, loc_v_tot = v_tot, loc_t_bf = t_bf,
               loc_beta_a = encounter_rates p fs r_a r_tot_v d_pl d_a,
               loc_a_mort = M_a fs * a p,
               loc_dstar = dstar, loc_w = w_v, loc_z0 = depth p + vs1 * dt p\<rparr>"
    and p': "p' = p\<lparr>a_coll := encounter_rates p fs r_a r_tot_v d_pl d_a * ambient_algae p fs / theta_pl,
               a_growth := mu_aa * a p,
               a_resp := q10_pow * R20 fs * a p,
               a := a p + (encounter_rates p fs r_a r_tot_v d_pl d_a * ambient_algae p fs / theta_pl
                           + mu_aa * a p - M_a fs * a p - q10_pow * R20 fs * a p) * dt p,
               vs_init := vs1,
               depth := (if depth p + vs1 * dt p \<le> 0.6 \<or> 4000 \<le> depth p + vs1 * dt p
                         then 0.6 else depth p + vs1 * dt p),
               vs := (if depth p + vs1 * dt p \<le> 0.6 \<or> 4000 \<le> depth p + vs1 * dt p
                      then 0 else vs1),
               rho_tot := rho_tot_v, r_tot := r_tot_v, delta_rho := delta_rho_v\<rparr>"
    by (rule Kooi_run_InrE)
  show thesis
  proof (rule that [of d_pl d_a q10_pow])
    show "loc_aa l = ambient_algae p fs" by (simp add: l)
    show "algal_growth p fs (loc_aa l) = Inr (loc_mu_aa l)" using s(1) by (simp add: l)
    show "volumes p fs = Inr (loc_theta_pl l, loc_r_a l, loc_v_tot l, loc_t_bf l)"
      using s(2) by (simp add: l)
    show "diffusivity p fs (loc_r_a l) (loc_t_bf l) = Inr (r_tot p', rho_tot p', d_pl, d_a)"
      using s(3) by (simp add: l p')
    show "loc_beta_a l = encounter_rates p fs (loc_r_a l) (r_tot p') d_pl d_a"
      by (simp add: l p')
    show "loc_theta_pl l \<noteq> 0" using s(4) by (simp add: l)
    show "py_pow (Q10 fs) ((temp p - 20) / 10) = Inr q10_pow" by (rule s(5))
    show "loc_a_mort l = M_a fs * a p" by (simp add: l)
    show "a_coll p' = loc_beta_a l * loc_aa l / loc_theta_pl l" by (simp add: l p')
    show "a_growth p' = loc_mu_aa l * a p" by (simp add: l p')
    show "a_resp p' = q10_pow * R20 fs * a p" by (simp add: l p')
    show "a p' = a p + (a_coll p' + a_growth p' - loc_a_mort l - a_resp p') * dt p"
      by (simp add: l p')
    show "density_anomaly p fs (r_tot p') (rho_tot p') = Inr (delta_rho p', loc_dstar l)"
      using s(6) by (simp add: l p')
    show "dimensionless_velocity (loc_dstar l) = Inr (loc_w l)" using s(7) by (simp add: l)
    show "settling p fs (loc_w l) (delta_rho p') = Inr (vs_init p')" using s(8) by (simp add: l p')
    show "loc_z0 l = depth p + vs_init p' * dt p" by (simp add: l p')
  qed
qed

lemma Kooi_run_frame:
  assumes "Kooi_run p fs time = Inr (l, p')"
  shows "p' = p\<lparr>a_coll := a_coll p', a_growth := a_growth p', a_resp := a_resp p', a := a p',
               vs_init := vs_init p', depth := depth p', vs := vs p',
               rho_tot := rho_tot p', r_tot := r_tot p', delta_rho := delta_rho p'\<rparr>"
  using assms by (rule Kooi_run_InrE) simp

lemma Kooi_run_vs_init_sign:
  assumes run: "Kooi_run p fs time = Inr (l, p')"
    and g: "0 < G fs" and kv: "0 < kin_visc p" and rho: "0 < density p"
  shows "(delta_rho p' = 0 \<longrightarrow> vs_init p' = 0)
       \<and> (0 < delta_rho p' \<longrightarrow> 0 < vs_init p')
       \<and> (delta_rho p' < 0 \<longrightarrow> vs_init p' < 0)"
proof -
  from run obtain d_pl d_a q10_pow :: real
    where da: "density_anomaly p fs (r_tot p') (rho_tot p') = Inr (delta_rho p', loc_dstar l)"
      and dv: "dimensionless_velocity (loc_dstar l) = Inr (loc_w l)"
      and st: "settling p fs (loc_w l) (delta_rho p') = Inr (vs_init p')"
    by (rule Kooi_run_sections)
  have rpos: "0 < r_tot p'" using run by (rule Kooi_run_r_tot)
  from da have dr: "delta_rho p' = (rho_tot p' - density p) / density p"
    and ds: "loc_dstar l = (rho_tot p' - density p) * G fs * (2 * r_tot p') ^ 3
                             / (density p * kin_visc p ^ 2)"
    unfolding density_anomaly_Inr_iff by blast+
  define c where "c = G fs * (2 * r_tot p') ^ 3 / kin_visc p ^ 2"
  have cpos: "0 < c" unfolding c_def using g kv rpos by simp
  have "loc_dstar l = delta_rho p' * c"
    unfolding ds dr c_def by simp
  with cpos have z: "loc_dstar l = 0 \<longleftrightarrow> delta_rho p' = 0" by simp
  have w0: "0 \<le> loc_w l" and wz: "loc_w l = 0 \<longleftrightarrow> loc_dstar l = 0"
    using dv by (rule dimensionless_velocity_sign)+
  show ?thesis
    using settling_sign [OF st g kv w0] z wz by auto
qed

subsection \<open>The encounter rate\<close>

lemma sections_ignore_phytoplankton [simp]:
  "volumes (p\<lparr>nd_phy := n, d_phy := d\<rparr>) fs = volumes p fs"
  "diffusivity (p\<lparr>nd_phy := n, d_phy := d\<rparr>) fs r_a t_bf = diffusivity p fs r_a t_bf"
  "encounter_rates (p\<lparr>nd_phy := n, d_phy := d\<rparr>) fs r_a r_tot_v d_pl d_a
     = encounter_rates p fs r_a r_tot_v d_pl d_a"
  by (simp_all add: volumes_def diffusivity_def encounter_rates_def)

lemma encounter_rates_pos:
  assumes "0 < K fs" and "0 < temp p + 273.16" and "0 < sw_visc p" and "0 \<le> Gamma fs"
    and "0 < r_a" and "0 < r_tot_v"
    and "d_pl = K fs * (temp p + 273.16) / (6 * pi * sw_visc p * r_tot_v)"
    and "d_a = K fs * (temp p + 273.16) / (6 * pi * sw_visc p * r_a)"
  shows "0 < encounter_rates p fs r_a r_tot_v d_pl d_a"
proof -
  have "0 < d_pl" "0 < d_a"
    using assms by simp_all
  then have "0 < 4 * pi * (d_pl + d_a) * (r_tot_v + r_a)"
    using assms(5,6) by simp
  moreover have "0 \<le> 1.3 * Gamma fs * ((r_tot_v + r_a) ^ 3)"
    using assms(4,5,6) by simp
  moreover have "0 \<le> (1 / 2) * pi * r_tot_v ^ 2 * \<bar>vs p\<bar>"
    by simp
  ultimately show ?thesis
    unfolding encounter_rates_def Let_def by linarith
qed

lemma Kooi_run_beta_a_pos:
  assumes run: "Kooi_run p fs time = Inr (l, p')"
    and "0 < K fs" and "0 < temp p + 273.16" and "0 < sw_visc p" and "0 \<le> Gamma fs"
  shows "0 < loc_beta_a l"
proof -
  from run obtain d_pl d_a :: real and q10_pow :: real
    where v: "volumes p fs = Inr (loc_theta_pl l, loc_r_a l, loc_v_tot l, loc_t_bf l)"
      and d: "diffusivity p fs (loc_r_a l) (loc_t_bf l) = Inr (r_tot p', rho_tot p', d_pl, d_a)"
      and b: "loc_beta_a l = encounter_rates p fs (loc_r_a l) (r_tot p') d_pl d_a"
    by (rule Kooi_run_sections)
  from v have "loc_r_a l = ((3 / 4) * (V_a fs / pi)) powr (1 / 3)"
    unfolding volumes_Inr_iff by blast
  then have "0 \<le> loc_r_a l" by simp
  moreover from d have "loc_r_a l \<noteq> 0"
    and dpl: "d_pl = K fs * (temp p + 273.16) / (6 * pi * sw_visc p * r_tot p')"
    and da: "d_a = K fs * (temp p + 273.16) / (6 * pi * sw_visc p * loc_r_a l)"
    unfolding diffusivity_Inr_iff by blast+
  ultimately have ra: "0 < loc_r_a l" by simp
  have rt: "0 < r_tot p'" using run by (rule Kooi_run_r_tot)
  show ?thesis
    unfolding b using assms(2-5) ra rt dpl da by (rule encounter_rates_pos)
qed

subsection \<open>The same step from another depth; a particle without algae\<close>

lemma sections_ignore_depth [simp]:
  "ambient_algae (p\<lparr>depth := z\<rparr>) fs = ambient_algae p fs"
  "algal_growth (p\<lparr>depth := z\<rparr>) fs aa = algal_growth p fs aa"
  "volumes (p\<lparr>depth := z\<rparr>) fs = volumes p fs"
  "diffusivity (p\<lparr>depth := z\<rparr>) fs r_a t_bf = diffusivity p fs r_a t_bf"
  "encounter_rates (p\<lparr>depth := z\<rparr>) fs r_a r_tot_v d_pl d_a
     = encounter_rates p fs r_a r_tot_v d_pl d_a"
  "density_anomaly (p\<lparr>depth := z\<rparr>) fs r_tot_v rho_tot_v = density_anomaly p fs r_tot_v rho_tot_v"
  "settling (p\<lparr>depth := z\<rparr>) fs w_v delta_rho_v = settling p fs w_v delta_rho_v"
  by (simp_all add: ambient_algae_def algal_growth_def volumes_def diffusivity_def
        encounter_rates_def density_anomaly_def settling_def)

lemma Kooi_run_other_depth:
  assumes r1: "Kooi_run p fs time = Inr (l, p')"
    and r2: "Kooi_run (p\<lparr>depth := z\<rparr>) fs time = Inr (l2, p2)"
  shows "p2\<lparr>depth := depth p', vs := vs p'\<rparr> = p'"
    and "l2\<lparr>loc_z0 := loc_z0 l\<rparr> = l"
    and "loc_z0 l2 = z + vs_init p' * dt p"
    and "vs_init p2 = vs_init p'"
proof -
  from r1 obtain mu_aa theta_pl r_a v_tot t_bf r_tot_v rho_tot_v d_pl d_a q10_pow
          delta_rho_v dstar w_v vs1
  where s: "algal_growth p fs (ambient_algae p fs) = Inr mu_aa"
      "volumes p fs = Inr (theta_pl, r_a, v_tot, t_bf)"
      "diffusivity p fs r_a t_bf = Inr (r_tot_v, rho_tot_v, d_pl, d_a)"
      "py_pow (Q10 fs) ((temp p - 20) / 10) = Inr q10_pow"
      "density_anomaly p fs r_tot_v rho_tot_v = Inr (delta_rho_v, dstar)"
      "dimensionless_velocity dstar = Inr w_v"
      "settling p fs w_v delta_rho_v = Inr vs1"
    and l: "l = \<lparr>loc_aa = ambient_algae p fs, loc_mu_aa = mu_aa, loc_theta_pl = theta_pl,
               loc_r_a = r_a, loc_v_tot = v_tot, loc_t_bf = t_bf,
               loc_beta_a = encounter_rates p fs r_a r_tot_v d_pl d_a,
               loc_a_mort = M_a fs * a p,
               loc_dstar = dstar, loc_w = w_v, loc_z0 = depth p + vs1 * dt p\<rparr>"
    and p': "p' = p\<lparr>a_coll := encounter_rates p fs r_a r_tot_v d_pl d_a * ambient_algae p fs / theta_pl,
               a_growth := mu_aa * a p,
               a_resp := q10_pow * R20 fs * a p,
               a := a p + (encounter_rates p fs r_a r_tot_v d_pl d_a * ambient_algae p fs / theta_pl
                           + mu_aa * a p - M_a fs * a p - q10_pow * R20 fs * a p) * dt p,
               vs_init := vs1,
               depth := (if depth p + vs1 * dt p \<le> 0.6 \<or> 4000 \<le> depth p + vs1 * dt p
                         then 0.6 else depth p + vs1 * dt p),
               vs := (if depth p + vs1 * dt p \<le> 0.6 \<or> 4000 \<le> depth p + vs1 * dt p
                      then 0 else vs1),
               rho_tot := rho_tot_v, r_tot := r_tot_v, delta_rho := delta_rho_v\<rparr>"
    by (rule Kooi_run_InrE) blast
  define q where "q = p\<lparr>depth := z\<rparr>"
  from r2 [folded q_def] obtain mu_aa' theta_pl' r_a' v_tot' t_bf' r_tot_v' rho_tot_v' d_pl' d_a'
      q10_pow' delta_rho_v' dstar' w_v' vs1'
  where t: "algal_growth q fs (ambient_algae q fs) = Inr mu_aa'"
      "volumes q fs = Inr (theta_pl', r_a', v_tot', t_bf')"
      "diffusivity q fs r_a' t_bf' = Inr (r_tot_v', rho_tot_v', d_pl', d_a')"
      "py_pow (Q10 fs) ((temp q - 20) / 10) = Inr q10_pow'"
      "density_anomaly q fs r_tot_v' rho_tot_v' = Inr (delta_rho_v', dstar')"
      "dimensionless_velocity dstar' = Inr w_v'"
      "settling q fs w_v' delta_rho_v' = Inr vs1'"
    and l2: "l2 = \<lparr>loc_aa = ambient_algae q fs, loc_mu_aa = mu_aa', loc_theta_pl = theta_pl',
               loc_r_a = r_a', loc_v_tot = v_tot', loc_t_bf = t_bf',
               loc_beta_a = encounter_rates q fs r_a' r_tot_v' d_pl' d_a',
               loc_a_mort = M_a fs * a q,
               loc_dstar = dstar', loc_w = w_v', loc_z0 = depth q + vs1' * dt q\<rparr>"
    and p2: "p2 = q\<lparr>a_coll := encounter_rates q fs r_a' r_tot_v' d_pl' d_a' * ambient_algae q fs / theta_pl',
               a_growth := mu_aa' * a q,
               a_resp := q10_pow' * R20 fs * a q,
               a := a q + (encounter_rates q fs r_a' r_tot_v' d_pl' d_a' * ambient_algae q fs / theta_pl'
                           + mu_aa' * a q - M_a fs * a q - q10_pow' * R20 fs * a q) * dt q,
               vs_init := vs1',
               depth := (if depth q + vs1' * dt q \<le> 0.6 \<or> 4000 \<le> depth q + vs1' * dt q
                         then 0.6 else depth q + vs1' * dt q),
               vs := (if depth q + vs1' * dt q \<le> 0.6 \<or> 4000 \<le> depth q + vs1' * dt q
                      then 0 else vs1'),
               rho_tot := rho_tot_v', r_tot := r_tot_v', delta_rho := delta_rho_v'\<rparr>"
    by (rule Kooi_run_InrE) blast
  have e1: "mu_aa' = mu_aa" using s(1) t(1) by (simp add: q_def)
  have e2: "theta_pl' = theta_pl" "r_a' = r_a" "v_tot' = v_tot" "t_bf' = t_bf"
    using s(2) t(2) by (simp_all add: q_def)
  have e3: "r_tot_v' = r_tot_v" "rho_tot_v' = rho_tot_v" "d_pl' = d_pl" "d_a' = d_a"
    using s(3) t(3) by (simp_all add: q_def e2)
  have e4: "q10_pow' = q10_pow" using s(4) t(4) by (simp add: q_def)
  have e5: "delta_rho_v' = delta_rho_v" "dstar' = dstar"
    using s(5) t(5) by (simp_all add: q_def e3)
  have e6: "w_v' = w_v" using s(6) t(6) by (simp add: e5)
  have e7: "vs1' = vs1" using s(7) t(7) by (simp add: q_def e5 e6)
  show "p2\<lparr>depth := depth p', vs := vs p'\<rparr> = p'"
    unfolding p2 e1 e2 e3 e4 e5 e6 e7 by (simp add: q_def p')
  show "l2\<lparr>loc_z0 := loc_z0 l\<rparr> = l"
    unfolding l2 e1 e2 e3 e4 e5 e6 e7 by (simp add: q_def l)
  show "loc_z0 l2 = z + vs_init p' * dt p"
    unfolding l2 e7 by (simp add: q_def p')
  show "vs_init p2 = vs_init p'"
    unfolding p2 e7 by (simp add: p')
qed

lemma clean_particle_run:
  assumes run: "Kooi_run p fs time = Inr (l, p')" and a0: "a p = 0" and r: "0 < r_pl p"
  shows "r_tot p' = r_pl p" and "rho_tot p' = rho_pl p"
proof -
  note rt = Kooi_run_r_tot [OF run]
  have "loc_v_tot l * (3 / (4 * pi)) = 3 * V_a fs * a p * r_pl p ^ 2 + r_pl p ^ 3"
    unfolding rt(5) rt(6) by (rule volume_balance)
  then have "loc_v_tot l * (3 / (4 * pi)) = r_pl p ^ 3"
    by (simp add: a0)
  then have "r_tot p' = (r_pl p ^ 3) powr (1 / 3)"
    using rt(2) by simp
  then show eq: "r_tot p' = r_pl p"
    using r by (simp add: cube_powr_third)
  with rt(1) have tb: "loc_t_bf l = 0" by simp
  from run obtain d_pl d_a :: real and q10_pow :: real
    where "diffusivity p fs (loc_r_a l) (loc_t_bf l) = Inr (r_tot p', rho_tot p', d_pl, d_a)"
    by (rule Kooi_run_sections)
  then have "rho_tot p' = (r_pl p ^ 3 * rho_pl p
                 + ((r_pl p + loc_t_bf l) ^ 3 - r_pl p ^ 3) * Rho_bf fs)
                   / (r_pl p + loc_t_bf l) ^ 3"
    unfolding diffusivity_Inr_iff by blast
  then show "rho_tot p' = rho_pl p"
    using r by (simp add: tb)
qed

lemma Kooi_run_depth_vs:
  assumes "Kooi_run p fs time = Inr (l, p')"
  shows "depth p' = (if loc_z0 l \<le> 0.6 \<or> 4000 \<le> loc_z0 l then 0.6 else loc_z0 l)"
    and "vs p' = (if loc_z0 l \<le> 0.6 \<or> 4000 \<le> loc_z0 l then 0 else vs_init p')"
  using assms by (rule Kooi_run_InrE, simp)+

lemma settling_rising:
  assumes "settling p fs w_v delta_rho_v = Inr vs1" and "\<not> 0 < delta_rho_v"
  shows "vs1 = - ((G fs * kin_visc p * w_v * (- delta_rho_v)) powr (1 / 3))"
  using assms
  by (auto simp: settling_def Let_def py_bind_Inr_iff py_pow_third_Inr_iff)

subsection \<open>The divisor of \<open>Profiles\<close>\<close>

text \<open>
  A float is a rational number, and for a rational temperature the divisor of \<^verbatim>\<open>mu_w\<close> is
  never 0: its two roots are irrational.
\<close>

lemma viscosity_divisor_nonzero:
  assumes "t \<in> \<rat>"
  shows "0.157 * (t + 64.993) ^ 2 - 91.296 \<noteq> (0::real)"
proof
  assume eq: "0.157 * (t + 64.993) ^ 2 - 91.296 = (0::real)"
  define x :: real where "x = t + 64.993"
  have "(64.993::real) = of_rat (64993 / 1000)"
    by (simp add: of_rat_divide)
  then have "(64.993::real) \<in> \<rat>"
    by (simp only: Rats_of_rat)
  with assms have "x \<in> \<rat>"
    unfolding x_def by (rule Rats_add)
  then obtain m n :: nat
    where n0: "n \<noteq> 0" and ax: "\<bar>x\<bar> = real m / real n" and cop: "coprime m n"
    by (rule Rats_abs_nat_div_natE)
  from eq have "157 * x ^ 2 = 91296"
    by (simp add: x_def)
  moreover have "x ^ 2 = (real m / real n) ^ 2"
    using ax by (metis power2_abs)
  ultimately have "157 * (real m) ^ 2 = 91296 * (real n) ^ 2"
    using n0 by (simp add: field_simps)
  then have "real (157 * m ^ 2) = real (91296 * n ^ 2)"
    by simp
  then have N: "157 * m ^ 2 = 91296 * n ^ 2"
    by (simp only: of_nat_eq_iff)
  have "coprime (n ^ 2) (m ^ 2)"
    using cop by (simp add: coprime_commute)
  moreover have "n ^ 2 dvd m ^ 2 * 157"
    using N by (simp add: mult.commute dvd_def)
  ultimately have "n ^ 2 dvd 157"
    by (simp add: coprime_dvd_mult_right_iff)
  then have "n ^ 2 \<le> 157"
    by (rule dvd_imp_le) simp
  have le: "n \<le> 12"
  proof (rule ccontr)
    assume "\<not> n \<le> 12"
    then have "13 \<le> n" by simp
    then have "13 * 13 \<le> n * n" by (intro mult_le_mono)
    with \<open>n ^ 2 \<le> 157\<close> show False by (simp add: power2_eq_square)
  qed
  have M: "(91296 * n ^ 2) mod 157 = 0"
    using N [symmetric] by simp
  from n0 le have "n \<in> {1, 2, 3, 4, 5, 6, 7, 8, 9, 10, 11, 12}"
    by (simp only: insert_iff empty_iff) presburger
  then show False
    using M by (elim insertE emptyE; simp)
qed

subsection \<open>The example particle\<close>

lemma sampled_particle_runs:
  "\<exists>l p'. Kooi_run sampled_particle uniform_fieldset 0 = Inr (l, p')"
  by (rule Kooi_run_succeeds)
     (simp_all add: sampled_particle_def released_particle_def uniform_fieldset_def
        add_constants_def)

lemma sampled_particle_returns:
  "\<exists>p'. Kooi sampled_particle uniform_fieldset 0 = Inr p'"
  using sampled_particle_runs by (auto simp: Kooi_Inr_iff)

lemma uniform_fieldset_constants:
  "G uniform_fieldset = 7.32 * 10 ^ 10 / (86400 ^ 2)"
  "Q10 uniform_fieldset = 2"
  "K uniform_fieldset = 1.0306 / 10 ^ 13 / (86400 ^ 2)"
  "Gamma uniform_fieldset = 1.728 * 10 ^ 5 / 86400"
  "V_a uniform_fieldset = 2.0 / 10 ^ 16"
  "Wt_N uniform_fieldset = 14.007"
  by (simp_all add: uniform_fieldset_def add_constants_def)

lemma sampled_particle_vs_init:
  assumes run: "Kooi_run sampled_particle uniform_fieldset 0 = Inr (l, p')"
  shows "- 1 < vs_init p'" and "vs_init p' < 0"
proof -
  have a0: "a sampled_particle = 0" and r: "0 < r_pl sampled_particle"
    by (simp_all add: sampled_particle_def released_particle_def)
  have rt: "r_tot p' = 1 / 10 ^ 4" and rho: "rho_tot p' = 920"
    using clean_particle_run [OF run a0 r]
    by (simp_all add: sampled_particle_def released_particle_def)
  from run obtain d_pl d_a :: real and q10_pow :: real
    where da: "density_anomaly sampled_particle uniform_fieldset (r_tot p') (rho_tot p')
                 = Inr (delta_rho p', loc_dstar l)"
      and dv: "dimensionless_velocity (loc_dstar l) = Inr (loc_w l)"
      and st: "settling sampled_particle uniform_fieldset (loc_w l) (delta_rho p') = Inr (vs_init p')"
    by (rule Kooi_run_sections)
  from da have dr: "delta_rho p' = (920 - 1025) / 1025"
    and ds: "loc_dstar l = (920 - 1025) * (7.32 * 10 ^ 10 / (86400 ^ 2)) * (2 * (1 / 10 ^ 4)) ^ 3
                             / (1025 * 0.00000119 ^ 2)"
    unfolding density_anomaly_Inr_iff rt rho
    by (simp_all add: sampled_particle_def released_particle_def uniform_fieldset_constants)
  have neg: "loc_dstar l < 0" unfolding ds by simp
  from dv have w: "loc_w l = (loc_dstar l) ^ 2 * (1.71 / 10 ^ 4)"
    unfolding dimensionless_velocity_eq using neg by simp
  define X where "X = G uniform_fieldset * kin_visc sampled_particle * loc_w l * (- delta_rho p')"
  have Xv: "X = (7.32 * 10 ^ 10 / (86400 ^ 2)) * 0.00000119
                  * (((920 - 1025) * (7.32 * 10 ^ 10 / (86400 ^ 2)) * (2 * (1 / 10 ^ 4)) ^ 3
                             / (1025 * 0.00000119 ^ 2)) ^ 2 * (1.71 / 10 ^ 4))
                  * (- ((920 - 1025) / 1025))"
    unfolding X_def w ds dr
    by (simp add: sampled_particle_def released_particle_def uniform_fieldset_constants)
  have X0: "0 < X" unfolding Xv by (simp add: power2_eq_square power3_eq_cube)
  have X1: "X < 1" unfolding Xv by (simp add: power2_eq_square power3_eq_cube)
  have "\<not> 0 < delta_rho p'" unfolding dr by simp
  with st have v: "vs_init p' = - (X powr (1 / 3))"
    unfolding X_def by (rule settling_rising)
  have "0 < X powr (1 / 3)" using X0 by simp
  then show "vs_init p' < 0" unfolding v by simp
  have "X powr (1 / 3) < 1 powr (1 / 3)"
    using X0 X1 by (intro powr_less_mono2) simp_all
  then show "- 1 < vs_init p'" unfolding v by simp
qed

lemma sampled_particle_delta_rho:
  assumes run: "Kooi_run sampled_particle uniform_fieldset 0 = Inr (l, p')"
  shows "delta_rho p' < 0"
proof -
  have a0: "a sampled_particle = 0" and r: "0 < r_pl sampled_particle"
    by (simp_all add: sampled_particle_def released_particle_def)
  have rho: "rho_tot p' = 920"
    using clean_particle_run(2) [OF run a0 r]
    by (simp add: sampled_particle_def released_particle_def)
  from run obtain d_pl d_a q10_pow :: real
    where "density_anomaly sampled_particle uniform_fieldset (r_tot p') (rho_tot p')
                 = Inr (delta_rho p', loc_dstar l)"
    by (rule Kooi_run_sections)
  then have "delta_rho p' = (920 - 1025) / 1025"
    unfolding density_anomaly_Inr_iff rho
    by (simp add: sampled_particle_def released_particle_def)
  then show ?thesis by simp
qed

lemma sampled_particle_at_100_runs:
  "\<exists>l p'. Kooi_run (sampled_particle\<lparr>depth := 100\<rparr>) uniform_fieldset 0 = Inr (l, p')"
  by (rule Kooi_run_succeeds)
     (simp_all add: sampled_particle_def released_particle_def uniform_fieldset_constants)

lemma sampled_particle_at_5000_runs:
  "\<exists>l p'. Kooi_run (sampled_particle\<lparr>depth := 5000\<rparr>) uniform_fieldset 0 = Inr (l, p')"
  by (rule Kooi_run_succeeds)
     (simp_all add: sampled_particle_def released_particle_def uniform_fieldset_constants)

section \<open>The depth test\<close>

text \<open>
  C2. Let \<open>z0 = z + vs * dt\<close> for the depth \<open>z\<close> the particle came in with and the
  settling velocity \<open>vs\<close> the step has just computed: the result of the settling section
  for the density anomaly and the dimensionless velocity of this step, which is also what
  \<open>vs_init\<close> records. If \<open>z0 \<le> 0.6\<close> or \<open>z0 \<ge> 4000\<close>, the particle leaves with
  depth exactly 0.6 and velocity exactly 0, also when it is the floor bound 4000 that was
  passed; otherwise it leaves with depth exactly \<open>z + vs * dt\<close> and the velocity
  unchanged.
\<close>

theorem depth_clamp_snaps_to_surface:
  assumes "Kooi_run p fs time = Inr (l, p')"
  shows "density_anomaly p fs (r_tot p') (rho_tot p') = Inr (delta_rho p', loc_dstar l)
       \<and> dimensionless_velocity (loc_dstar l) = Inr (loc_w l)
       \<and> settling p fs (loc_w l) (delta_rho p') = Inr (vs_init p')
       \<and> loc_z0 l = depth p + vs_init p' * dt p
       \<and> (if depth p + vs_init p' * dt p \<le> 0.6 \<or> 4000 \<le> depth p + vs_init p' * dt p
          then depth p' = 0.6 \<and> vs p' = 0
          else depth p' = depth p + vs_init p' * dt p \<and> vs p' = vs_init p')"
proof -
  from assms obtain d_pl d_a q10_pow :: real
    where da: "density_anomaly p fs (r_tot p') (rho_tot p') = Inr (delta_rho p', loc_dstar l)"
      and dv: "dimensionless_velocity (loc_dstar l) = Inr (loc_w l)"
      and st: "settling p fs (loc_w l) (delta_rho p') = Inr (vs_init p')"
      and z0: "loc_z0 l = depth p + vs_init p' * dt p"
    by (rule Kooi_run_sections)
  have "if depth p + vs_init p' * dt p \<le> 0.6 \<or> 4000 \<le> depth p + vs_init p' * dt p
        then depth p' = 0.6 \<and> vs p' = 0
        else depth p' = depth p + vs_init p' * dt p \<and> vs p' = vs_init p'"
    using Kooi_run_depth_vs [OF assms] unfolding z0 by simp
  with da dv st z0 show ?thesis by (intro conjI)
qed

theorem depth_clamp_snaps_to_surface_witness:
  "(\<exists>l p'. Kooi_run sampled_particle uniform_fieldset 0 = Inr (l, p')
      \<and> settling sampled_particle uniform_fieldset (loc_w l) (delta_rho p') = Inr (vs_init p')
      \<and> vs_init p' < 0
      \<and> 0.6 + vs_init p' * 60 \<le> 0.6
      \<and> depth p' = 0.6 \<and> vs p' = 0)
   \<and> (\<exists>l p'. Kooi_run (sampled_particle\<lparr>depth := 100\<rparr>) uniform_fieldset 0 = Inr (l, p')
      \<and> 0.6 < 100 + vs_init p' * 60 \<and> 100 + vs_init p' * 60 < 4000
      \<and> depth p' = 100 + vs_init p' * 60 \<and> vs p' = vs_init p')
   \<and> (\<exists>l p'. Kooi_run (sampled_particle\<lparr>depth := 5000\<rparr>) uniform_fieldset 0 = Inr (l, p')
      \<and> 4000 \<le> 5000 + vs_init p' * 60
      \<and> depth p' = 0.6 \<and> vs p' = 0)"
proof -
  obtain l p' where r1: "Kooi_run sampled_particle uniform_fieldset 0 = Inr (l, p')"
    using sampled_particle_runs by blast
  obtain l2 p2
    where r2: "Kooi_run (sampled_particle\<lparr>depth := 100\<rparr>) uniform_fieldset 0 = Inr (l2, p2)"
    using sampled_particle_at_100_runs by blast
  obtain l3 p3
    where r3: "Kooi_run (sampled_particle\<lparr>depth := 5000\<rparr>) uniform_fieldset 0 = Inr (l3, p3)"
    using sampled_particle_at_5000_runs by blast
  note v = sampled_particle_vs_init [OF r1]
  have v2: "vs_init p2 = vs_init p'"
    using r1 r2 by (rule Kooi_run_other_depth)
  have v3: "vs_init p3 = vs_init p'"
    using r1 r3 by (rule Kooi_run_other_depth)
  have d: "depth sampled_particle = 0.6" "dt sampled_particle = 60"
    by (simp_all add: sampled_particle_def released_particle_def)
  have fired: "0.6 + vs_init p' * 60 \<le> 0.6"
    using v by simp
  have free: "0.6 < 100 + vs_init p2 * 60" "100 + vs_init p2 * 60 < 4000"
    unfolding v2 using v by simp_all
  have floor: "4000 \<le> 5000 + vs_init p3 * 60"
    unfolding v3 using v by simp
  note t1 = depth_clamp_snaps_to_surface [OF r1]
  from t1 have st: "settling sampled_particle uniform_fieldset (loc_w l) (delta_rho p')
                      = Inr (vs_init p')"
    by blast
  from t1 fired have c1: "depth p' = 0.6 \<and> vs p' = 0"
    by (simp add: d)
  from depth_clamp_snaps_to_surface [OF r2] free
  have c2: "depth p2 = 100 + vs_init p2 * 60 \<and> vs p2 = vs_init p2"
    by (simp add: d)
  from depth_clamp_snaps_to_surface [OF r3] floor
  have c3: "depth p3 = 0.6 \<and> vs p3 = 0"
    by (simp add: d)
  from r1 st v(2) fired c1
  have w1: "\<exists>l p'. Kooi_run sampled_particle uniform_fieldset 0 = Inr (l, p')
      \<and> settling sampled_particle uniform_fieldset (loc_w l) (delta_rho p') = Inr (vs_init p')
      \<and> vs_init p' < 0
      \<and> 0.6 + vs_init p' * 60 \<le> 0.6
      \<and> depth p' = 0.6 \<and> vs p' = 0"
    by blast
  from r2 free c2
  have w2: "\<exists>l p'. Kooi_run (sampled_particle\<lparr>depth := 100\<rparr>) uniform_fieldset 0 = Inr (l, p')
      \<and> 0.6 < 100 + vs_init p' * 60 \<and> 100 + vs_init p' * 60 < 4000
      \<and> depth p' = 100 + vs_init p' * 60 \<and> vs p' = vs_init p'"
    by blast
  from r3 floor c3
  have w3: "\<exists>l p'. Kooi_run (sampled_particle\<lparr>depth := 5000\<rparr>) uniform_fieldset 0 = Inr (l, p')
      \<and> 4000 \<le> 5000 + vs_init p' * 60
      \<and> depth p' = 0.6 \<and> vs p' = 0"
    by blast
  from w1 w2 w3 show ?thesis by (intro conjI)
qed

text \<open>
  C3. Whatever the depth before the step and whatever settling velocity the step computes,
  the depth the particle leaves with lies in the closed interval from 0.6 to 4000.
\<close>

theorem depth_stays_in_band:
  assumes "Kooi p fs time = Inr p'"
  shows "0.6 \<le> depth p' \<and> depth p' \<le> 4000"
proof -
  from assms obtain l where "Kooi_run p fs time = Inr (l, p')"
    by (auto simp: Kooi_Inr_iff)
  then show ?thesis
    by (rule Kooi_run_InrE) simp
qed

theorem depth_stays_in_band_witness:
  "\<exists>p'. Kooi sampled_particle uniform_fieldset 0 = Inr p'
      \<and> 0.6 \<le> depth p' \<and> depth p' \<le> 4000"
proof -
  obtain p' where k: "Kooi sampled_particle uniform_fieldset 0 = Inr p'"
    using sampled_particle_returns by blast
  from depth_stays_in_band [OF k] k show ?thesis by blast
qed

text \<open>
  C10. When the depth test fires (\<open>z0 \<le> 0.6\<close> or \<open>z0 \<ge> 4000\<close>) the step is not
  taken back: the particle it leaves is the particle the same step leaves from a depth
  where the test does not fire, with only the depth (0.6) and the velocity (0) replaced.
  So the advanced \<open>a\<close> and the diagnostics \<open>a_coll\<close>, \<open>a_growth\<close>, \<open>a_resp\<close>,
  \<open>vs_init\<close>, \<open>rho_tot\<close>, \<open>r_tot\<close> and \<open>delta_rho\<close> are what they are without the
  clamp, and so are the locals but for \<open>z0\<close>.
\<close>

theorem depth_clamp_keeps_committed_updates:
  assumes r1: "Kooi_run p fs time = Inr (l, p')"
    and fired: "loc_z0 l \<le> 0.6 \<or> 4000 \<le> loc_z0 l"
    and r2: "Kooi_run (p\<lparr>depth := z\<rparr>) fs time = Inr (l2, p2)"
    and free: "0.6 < loc_z0 l2 \<and> loc_z0 l2 < 4000"
  shows "p' = p2\<lparr>depth := 0.6, vs := 0\<rparr>
       \<and> depth p2 = z + vs_init p' * dt p \<and> vs p2 = vs_init p'
       \<and> a p' = a p + (a_coll p' + a_growth p' - loc_a_mort l - a_resp p') * dt p
       \<and> l2\<lparr>loc_z0 := loc_z0 l\<rparr> = l"
proof -
  note o = Kooi_run_other_depth [OF r1 r2]
  have "depth p' = 0.6" "vs p' = 0"
    using Kooi_run_depth_vs [OF r1] fired by simp_all
  with o(1) have c1: "p' = p2\<lparr>depth := 0.6, vs := 0\<rparr>" by simp
  then have vi: "vs_init p2 = vs_init p'" by (cases p2) simp
  have c2: "depth p2 = z + vs_init p' * dt p" "vs p2 = vs_init p'"
    using Kooi_run_depth_vs [OF r2] free o(3) vi by simp_all
  from r1 have c3: "a p' = a p + (a_coll p' + a_growth p' - loc_a_mort l - a_resp p') * dt p"
    by (rule Kooi_run_sections)
  from c1 c2 c3 o(2) show ?thesis by (intro conjI)
qed

theorem depth_clamp_keeps_committed_updates_witness:
  "\<exists>l p' l2 p2.
      Kooi_run sampled_particle uniform_fieldset 0 = Inr (l, p')
    \<and> (loc_z0 l \<le> 0.6 \<or> 4000 \<le> loc_z0 l)
    \<and> Kooi_run (sampled_particle\<lparr>depth := 100\<rparr>) uniform_fieldset 0 = Inr (l2, p2)
    \<and> (0.6 < loc_z0 l2 \<and> loc_z0 l2 < 4000)
    \<and> p' = p2\<lparr>depth := 0.6, vs := 0\<rparr>
    \<and> a p' = a sampled_particle
               + (a_coll p' + a_growth p' - loc_a_mort l - a_resp p') * dt sampled_particle"
proof -
  obtain l p' where r1: "Kooi_run sampled_particle uniform_fieldset 0 = Inr (l, p')"
    using sampled_particle_runs by blast
  obtain l2 p2
    where r2: "Kooi_run (sampled_particle\<lparr>depth := 100\<rparr>) uniform_fieldset 0 = Inr (l2, p2)"
    using sampled_particle_at_100_runs by blast
  note v = sampled_particle_vs_init [OF r1]
  have z1: "loc_z0 l = 0.6 + vs_init p' * 60"
    using Kooi_run_sections [OF r1] by (simp add: sampled_particle_def released_particle_def)
  have z2: "loc_z0 l2 = 100 + vs_init p' * 60"
    using Kooi_run_other_depth(3) [OF r1 r2]
    by (simp add: sampled_particle_def released_particle_def)
  have fired: "loc_z0 l \<le> 0.6 \<or> 4000 \<le> loc_z0 l"
    unfolding z1 using v by simp
  have free: "0.6 < loc_z0 l2 \<and> loc_z0 l2 < 4000"
    unfolding z2 using v by simp
  from depth_clamp_keeps_committed_updates [OF r1 fired r2 free] r1 fired r2 free
  show ?thesis by blast
qed

section \<open>The particle geometry\<close>

text \<open>
  C8. For a particle with attached-algae density \<open>a \<ge> 0\<close> and plastic radius
  \<open>r_pl > 0\<close>, the total radius the step computes is at least the plastic radius: the
  biofilm thickness \<open>t_bf = (v_tot * 3 / (4 * pi)) ^ (1 / 3) - r_pl\<close>, from the volume
  balance \<open>v_tot = v_a * a * theta_pl + (4 / 3) * pi * r_pl ^ 3\<close>, is not negative.
\<close>

theorem total_radius_at_least_plastic_radius:
  assumes "Kooi_run p fs time = Inr (l, p')" and "0 \<le> a p" and "0 < r_pl p"
  shows "r_pl p \<le> r_tot p' \<and> 0 \<le> loc_t_bf l
       \<and> r_tot p' = r_pl p + loc_t_bf l
       \<and> loc_t_bf l = (loc_v_tot l * 3 / (4 * pi)) powr (1 / 3) - r_pl p
       \<and> loc_v_tot l = V_a fs * a p * loc_theta_pl l + (4 / 3) * pi * r_pl p ^ 3
       \<and> loc_theta_pl l = 4 * pi * r_pl p ^ 2"
proof -
  from assms(1) obtain d_pl d_a q10_pow :: real
    where v: "volumes p fs = Inr (loc_theta_pl l, loc_r_a l, loc_v_tot l, loc_t_bf l)"
    by (rule Kooi_run_sections)
  from assms(3) have "0 \<le> r_pl p" by simp
  with v assms(2) have t: "0 \<le> loc_t_bf l"
    by (rule volumes_t_bf_nonneg)
  note r = Kooi_run_r_tot [OF assms(1)]
  from t r(1) have "r_pl p \<le> r_tot p'" by simp
  with t r(1,4,5,6) show ?thesis by simp
qed

theorem total_radius_at_least_plastic_radius_witness:
  "\<exists>l p'. Kooi_run sampled_particle uniform_fieldset 0 = Inr (l, p')
      \<and> 0 \<le> a sampled_particle \<and> 0 < r_pl sampled_particle
      \<and> r_pl sampled_particle \<le> r_tot p' \<and> 0 \<le> loc_t_bf l"
proof -
  obtain l p' where k: "Kooi_run sampled_particle uniform_fieldset 0 = Inr (l, p')"
    using sampled_particle_runs by blast
  have h: "0 \<le> a sampled_particle" "0 < r_pl sampled_particle"
    by (simp_all add: sampled_particle_def released_particle_def)
  from total_radius_at_least_plastic_radius [OF k h] k h show ?thesis by blast
qed

section \<open>The settling velocity\<close>

text \<open>
  C4. For valid inputs (positive \<open>g\<close>, \<open>kin_visc\<close> and \<open>rho_sw\<close>; the total radius of a
  run that returns is positive by itself) the settling velocity before the depth test has
  the sign of the density anomaly: it is exactly 0 for \<open>delta_rho = 0\<close>, positive for
  \<open>delta_rho > 0\<close> and negative for \<open>delta_rho < 0\<close>. This holds for every value of
  \<open>dstar\<close>, so also at the regime boundaries \<open>dstar = 0.05\<close> and \<open>dstar = 5e9\<close> of the
  piecewise correlation.
\<close>

theorem settling_velocity_has_sign_of_density_anomaly:
  assumes "Kooi p fs time = Inr p'"
    and "0 < G fs" and "0 < kin_visc p" and "0 < density p"
  shows "0 < r_tot p'
       \<and> (delta_rho p' = 0 \<longrightarrow> vs_init p' = 0)
       \<and> (0 < delta_rho p' \<longrightarrow> 0 < vs_init p')
       \<and> (delta_rho p' < 0 \<longrightarrow> vs_init p' < 0)"
proof -
  from assms(1) obtain l where run: "Kooi_run p fs time = Inr (l, p')"
    by (auto simp: Kooi_Inr_iff)
  have "0 < r_tot p'" using run by (rule Kooi_run_r_tot)
  with Kooi_run_vs_init_sign [OF run assms(2-4)] show ?thesis by blast
qed

theorem settling_velocity_has_sign_of_density_anomaly_witness:
  "\<exists>p'. Kooi sampled_particle uniform_fieldset 0 = Inr p'
      \<and> 0 < G uniform_fieldset \<and> 0 < kin_visc sampled_particle \<and> 0 < density sampled_particle
      \<and> delta_rho p' < 0 \<and> vs_init p' < 0"
proof -
  obtain l p' where r: "Kooi_run sampled_particle uniform_fieldset 0 = Inr (l, p')"
    using sampled_particle_runs by blast
  then have k: "Kooi sampled_particle uniform_fieldset 0 = Inr p'"
    by (auto simp: Kooi_Inr_iff)
  have h: "0 < G uniform_fieldset" "0 < kin_visc sampled_particle" "0 < density sampled_particle"
    by (simp_all add: uniform_fieldset_constants sampled_particle_def released_particle_def)
  have lighter: "delta_rho p' < 0"
    using r by (rule sampled_particle_delta_rho)
  with settling_velocity_has_sign_of_density_anomaly [OF k h] have "vs_init p' < 0"
    by blast
  with k h lighter show ?thesis by blast
qed

section \<open>The attached algae\<close>

text \<open>
  C6. The attached-algae density is advanced by one explicit Euler step,
  \<open>a_new = a + dt * (a_coll + a_growth - a_mort - a_resp)\<close> with
  \<open>a_coll = beta_a * aa / theta_pl\<close>, \<open>a_growth = mu_aa * a\<close>, \<open>a_mort = m_a * a\<close> and
  \<open>a_resp = q10 ^ ((t - 20) / 10) * r20 * a\<close> (for the positive temperature coefficient
  \<open>q10\<close> of the script). \<open>a_coll\<close>, \<open>a_growth\<close> and \<open>a_resp\<close> are written to the
  particle; the mortality term stays a local: the particle has no attribute for it, and
  the only attributes the step changes are the ten listed in the last conjunct.
\<close>

theorem attached_algae_euler_step:
  assumes "Kooi_run p fs time = Inr (l, p')" and "0 < Q10 fs"
  shows "a p' = a p + dt p * (a_coll p' + a_growth p' - loc_a_mort l - a_resp p')
       \<and> a_coll p' = loc_beta_a l * loc_aa l / loc_theta_pl l
       \<and> a_growth p' = loc_mu_aa l * a p
       \<and> loc_a_mort l = M_a fs * a p
       \<and> a_resp p' = Q10 fs powr ((temp p - 20) / 10) * R20 fs * a p
       \<and> p' = p\<lparr>a_coll := a_coll p', a_growth := a_growth p', a_resp := a_resp p', a := a p',
                 vs_init := vs_init p', depth := depth p', vs := vs p',
                 rho_tot := rho_tot p', r_tot := r_tot p', delta_rho := delta_rho p'\<rparr>"
proof -
  from assms(1) obtain d_pl d_a q10_pow :: real
    where q: "py_pow (Q10 fs) ((temp p - 20) / 10) = Inr q10_pow"
      and m: "loc_a_mort l = M_a fs * a p"
      and c: "a_coll p' = loc_beta_a l * loc_aa l / loc_theta_pl l"
      and g: "a_growth p' = loc_mu_aa l * a p"
      and r: "a_resp p' = q10_pow * R20 fs * a p"
      and e: "a p' = a p + (a_coll p' + a_growth p' - loc_a_mort l - a_resp p') * dt p"
    by (rule Kooi_run_sections)
  from q assms(2) have "q10_pow = Q10 fs powr ((temp p - 20) / 10)"
    by (simp add: py_pow_pos)
  with r have r': "a_resp p' = Q10 fs powr ((temp p - 20) / 10) * R20 fs * a p"
    by simp
  from e have e': "a p' = a p + dt p * (a_coll p' + a_growth p' - loc_a_mort l - a_resp p')"
    by (simp only: mult.commute)
  from e' c g m r' Kooi_run_frame [OF assms(1)] show ?thesis
    by (intro conjI)
qed

theorem attached_algae_euler_step_witness:
  "\<exists>l p'. Kooi_run sampled_particle uniform_fieldset 0 = Inr (l, p')
      \<and> 0 < Q10 uniform_fieldset
      \<and> a p' = a sampled_particle
                + dt sampled_particle * (a_coll p' + a_growth p' - loc_a_mort l - a_resp p')
      \<and> a_coll p' = loc_beta_a l * loc_aa l / loc_theta_pl l
      \<and> a_growth p' = loc_mu_aa l * a sampled_particle
      \<and> loc_a_mort l = M_a uniform_fieldset * a sampled_particle
      \<and> a_resp p' = Q10 uniform_fieldset powr ((temp sampled_particle - 20) / 10)
                      * R20 uniform_fieldset * a sampled_particle"
proof -
  obtain l p' where k: "Kooi_run sampled_particle uniform_fieldset 0 = Inr (l, p')"
    using sampled_particle_runs by blast
  have h: "0 < Q10 uniform_fieldset"
    by (simp add: uniform_fieldset_constants)
  from attached_algae_euler_step [OF k h] k h show ?thesis by blast
qed

text \<open>
  C7. With every other input held fixed, the collision attachment rate
  \<open>a_coll = beta_a * aa / theta_pl\<close> is strictly increasing in the ambient algal
  concentration \<open>aa\<close>: \<open>beta_a\<close> and \<open>theta_pl\<close> do not depend on \<open>aa\<close>, so two
  steps that differ only in the phytoplankton concentrations have the same (positive)
  \<open>beta_a\<close> and \<open>theta_pl\<close>, and \<open>aa1 < aa2\<close> gives \<open>a_coll(aa1) < a_coll(aa2)\<close>.
\<close>

theorem collision_rate_increases_with_ambient_algae:
  assumes run1: "Kooi_run p fs time = Inr (l1, p1)"
    and run2: "Kooi_run (p\<lparr>nd_phy := n, d_phy := d\<rparr>) fs time = Inr (l2, p2)"
    and aa: "loc_aa l1 < loc_aa l2"
    and beta: "0 < loc_beta_a l1"
  shows "loc_beta_a l2 = loc_beta_a l1 \<and> loc_theta_pl l2 = loc_theta_pl l1
       \<and> 0 < loc_theta_pl l1
       \<and> a_coll p1 = loc_beta_a l1 * loc_aa l1 / loc_theta_pl l1
       \<and> a_coll p2 = loc_beta_a l1 * loc_aa l2 / loc_theta_pl l1
       \<and> a_coll p1 < a_coll p2"
proof -
  from run1 obtain d_pl1 d_a1 :: real and q1 :: real
    where v1: "volumes p fs = Inr (loc_theta_pl l1, loc_r_a l1, loc_v_tot l1, loc_t_bf l1)"
      and d1: "diffusivity p fs (loc_r_a l1) (loc_t_bf l1) = Inr (r_tot p1, rho_tot p1, d_pl1, d_a1)"
      and b1: "loc_beta_a l1 = encounter_rates p fs (loc_r_a l1) (r_tot p1) d_pl1 d_a1"
      and t1: "loc_theta_pl l1 \<noteq> 0"
      and c1: "a_coll p1 = loc_beta_a l1 * loc_aa l1 / loc_theta_pl l1"
    by (rule Kooi_run_sections)
  from run2 obtain d_pl2 d_a2 :: real and q2 :: real
    where v2: "volumes (p\<lparr>nd_phy := n, d_phy := d\<rparr>) fs
                 = Inr (loc_theta_pl l2, loc_r_a l2, loc_v_tot l2, loc_t_bf l2)"
      and d2: "diffusivity (p\<lparr>nd_phy := n, d_phy := d\<rparr>) fs (loc_r_a l2) (loc_t_bf l2)
                 = Inr (r_tot p2, rho_tot p2, d_pl2, d_a2)"
      and b2: "loc_beta_a l2
                 = encounter_rates (p\<lparr>nd_phy := n, d_phy := d\<rparr>) fs (loc_r_a l2) (r_tot p2) d_pl2 d_a2"
      and c2: "a_coll p2 = loc_beta_a l2 * loc_aa l2 / loc_theta_pl l2"
    by (rule Kooi_run_sections)
  from v1 v2 have veq: "loc_theta_pl l2 = loc_theta_pl l1" "loc_r_a l2 = loc_r_a l1"
      "loc_t_bf l2 = loc_t_bf l1"
    by simp_all
  from d1 d2 have deq: "r_tot p2 = r_tot p1" "d_pl2 = d_pl1" "d_a2 = d_a1"
    by (simp_all add: veq)
  have beq: "loc_beta_a l2 = loc_beta_a l1"
    unfolding b1 b2 by (simp add: veq deq)
  from v1 have "loc_theta_pl l1 = 4 * pi * r_pl p ^ 2"
    unfolding volumes_Inr_iff by blast
  then have "0 \<le> loc_theta_pl l1" by simp
  with t1 have tpos: "0 < loc_theta_pl l1" by simp
  have "loc_beta_a l1 * loc_aa l1 < loc_beta_a l1 * loc_aa l2"
    using aa beta by simp
  then have "loc_beta_a l1 * loc_aa l1 / loc_theta_pl l1
               < loc_beta_a l1 * loc_aa l2 / loc_theta_pl l1"
    using tpos by (simp add: divide_strict_right_mono)
  then show ?thesis
    using c1 c2 beq veq(1) tpos by simp
qed

theorem collision_rate_increases_with_ambient_algae_witness:
  "\<exists>l1 p1 l2 p2.
      Kooi_run sampled_particle uniform_fieldset 0 = Inr (l1, p1)
    \<and> Kooi_run (sampled_particle\<lparr>nd_phy := 0.2, d_phy := 0.05\<rparr>) uniform_fieldset 0 = Inr (l2, p2)
    \<and> loc_aa l1 < loc_aa l2 \<and> 0 < loc_beta_a l1
    \<and> a_coll p1 < a_coll p2"
proof -
  obtain l1 p1 where r1: "Kooi_run sampled_particle uniform_fieldset 0 = Inr (l1, p1)"
    using sampled_particle_runs by blast
  have "\<exists>l p'. Kooi_run (sampled_particle\<lparr>nd_phy := 0.2, d_phy := 0.05\<rparr>) uniform_fieldset 0
                  = Inr (l, p')"
    by (rule Kooi_run_succeeds)
       (simp_all add: sampled_particle_def released_particle_def uniform_fieldset_constants)
  then obtain l2 p2
    where r2: "Kooi_run (sampled_particle\<lparr>nd_phy := 0.2, d_phy := 0.05\<rparr>) uniform_fieldset 0
                 = Inr (l2, p2)"
    by blast
  have a1: "loc_aa l1 = ambient_algae sampled_particle uniform_fieldset"
    using r1 by (rule Kooi_run_sections)
  have a2: "loc_aa l2 = ambient_algae (sampled_particle\<lparr>nd_phy := 0.2, d_phy := 0.05\<rparr>) uniform_fieldset"
    using r2 by (rule Kooi_run_sections)
  have aa: "loc_aa l1 < loc_aa l2"
    unfolding a1 a2
    by (simp add: ambient_algae_def Let_def med_N2cell_def sampled_particle_def
          released_particle_def uniform_fieldset_constants)
  have beta: "0 < loc_beta_a l1"
    using r1 by (rule Kooi_run_beta_a_pos)
      (simp_all add: sampled_particle_def released_particle_def uniform_fieldset_constants)
  from collision_rate_increases_with_ambient_algae [OF r1 r2 aa beta] r1 r2 aa beta
  show ?thesis by blast
qed

section \<open>No ambient algae\<close>

text \<open>
  C1, as the code has it. The claim is that with the clamped ambient algal concentration
  \<open>aa = 0\<close> the step completes with \<open>mu_aa = 0\<close>. The source divides \<open>mu_n\<close> by
  \<open>aa\<close> without a guard (line 69), so whenever \<open>aa = 0\<close> the step raises the division
  error instead, whatever the productivity.
\<close>

theorem no_ambient_algae_raises:
  assumes "ambient_algae p fs = 0"
  shows "Kooi p fs time = Inl ZeroDivisionError"
  using assms
  by (simp add: Kooi_def Kooi_run_def Let_def algal_growth_def py_div_def)

theorem no_ambient_algae_raises_witness:
  "ambient_algae (sampled_particle\<lparr>nd_phy := 0, d_phy := 0, tpp3 := 1\<rparr>) uniform_fieldset = 0
   \<and> Kooi (sampled_particle\<lparr>nd_phy := 0, d_phy := 0, tpp3 := 1\<rparr>) uniform_fieldset 0
       = Inl ZeroDivisionError"
proof -
  have h: "ambient_algae (sampled_particle\<lparr>nd_phy := 0, d_phy := 0, tpp3 := 1\<rparr>) uniform_fieldset = 0"
    by (simp add: ambient_algae_def Let_def)
  from no_ambient_algae_raises [OF h] h show ?thesis by blast
qed

text \<open>
  C9, as the code has it. The first end-to-end scenario of the specification (a particle
  of radius 1e-4 and density 920 with no attached algae at depth 0.6, seawater of density
  1025 at 15 degrees, no ambient phytoplankton, no productivity, a timestep of 60) has
  \<open>aa = 0\<close>: the step raises the division error of line 69 and leaves no particle state
  to compare.
\<close>

theorem scenario_one_raises:
  "Kooi (p\<lparr>r_pl := 1 / 10 ^ 4, rho_pl := 920, a := 0, depth := 0.6, density := 1025,
            temp := 15, nd_phy := 0, d_phy := 0, tpp3 := 0, dt := 60\<rparr>) fs time
     = Inl ZeroDivisionError"
  by (simp add: Kooi_def Kooi_run_def Let_def algal_growth_def ambient_algae_def py_div_def)

section \<open>The kernel \<open>Profiles\<close>\<close>

text \<open>
  C5. Given the sampled temperature \<open>t\<close>, the sampled raw absolute salinity \<open>s\<close> and the
  seawater density \<open>rho_sw\<close> of the particle, the kernel raises nothing and writes
  \<open>sw_visc = mu_w * (1 + A * S + B * S ^ 2)\<close> with
  \<open>mu_w = 4.2844e-5 + 1 / (0.157 * (t + 64.993) ^ 2 - 91.296)\<close>,
  \<open>A = 1.541 + 1.998e-2 * t - 9.52e-5 * t ^ 2\<close>,
  \<open>B = 7.974 - 7.561e-2 * t + 4.724e-4 * t ^ 2\<close>, \<open>S = s / 1000\<close>, and
  \<open>kin_visc = sw_visc / rho_sw\<close>: a function of the three scalars alone. The temperature
  is a float and so a rational number; the seawater density is the one the density kernel
  has written just before, which is not 0.
\<close>

theorem profiles_viscosity:
  assumes "cons_temperature fs time (depth p) (lat p) (lon p) = Inr t"
    and "d_phy_field fs time (depth p) (lat p) (lon p) = Inr dp"
    and "nd_phy_field fs time (depth p) (lat p) (lon p) = Inr ndp"
    and "tpp3_field fs time (depth p) (lat p) (lon p) = Inr tp"
    and "abs_salinity fs time (depth p) (lat p) (lon p) = Inr s"
    and "W fs time (depth p) (lat p) (lon p) = Inr wv"
    and "t \<in> \<rat>" and "density p \<noteq> 0"
  shows "Profiles p fs time =
    (let mu_w = 4.2844 / 10 ^ 5 + 1 / ((0.157 * (t + 64.993) ^ 2) - 91.296);
         A = 1.541 + 1.998 / 10 ^ 2 * t - 9.52 / 10 ^ 5 * t ^ 2;
         B = 7.974 - 7.561 / 10 ^ 2 * t + 4.724 / 10 ^ 4 * t ^ 2;
         S = s / 1000;
         sw = mu_w * (1 + A * S + B * S ^ 2)
     in Inr (p\<lparr>temp := t, d_phy := dp, nd_phy := ndp, tpp3 := tp,
               sw_visc := sw, kin_visc := sw / density p, w_adv := wv\<rparr>))"
proof -
  have nz: "0.157 * (t + 64.993) ^ 2 - 91.296 \<noteq> 0"
    using assms(7) by (rule viscosity_divisor_nonzero)
  have q: "py_div 1 ((0.157 * (t + 64.993) ^ 2) - 91.296)
          = Inr (1 / ((0.157 * (t + 64.993) ^ 2) - 91.296))"
    using nz by (simp only: py_div_def if_False)
  show ?thesis
    unfolding Profiles_def assms(1-6) q py_bind_Inr Let_def
    using assms(8) by (simp add: py_div_def)
qed

theorem profiles_viscosity_witness:
  "cons_temperature uniform_fieldset 0 0.6 28 (- 135) = Inr 15
   \<and> d_phy_field uniform_fieldset 0 0.6 28 (- 135) = Inr 0.05
   \<and> nd_phy_field uniform_fieldset 0 0.6 28 (- 135) = Inr 0.1
   \<and> tpp3_field uniform_fieldset 0 0.6 28 (- 135) = Inr 0.02
   \<and> abs_salinity uniform_fieldset 0 0.6 28 (- 135) = Inr 35
   \<and> W uniform_fieldset 0 0.6 28 (- 135) = Inr 0
   \<and> (15::real) \<in> \<rat> \<and> density (released_particle\<lparr>density := 1025\<rparr>) \<noteq> 0
   \<and> (\<exists>p'. Profiles (released_particle\<lparr>density := 1025\<rparr>) uniform_fieldset 0 = Inr p'
          \<and> kin_visc p' = sw_visc p' / 1025 \<and> temp p' = 15)"
proof -
  let ?p = "released_particle\<lparr>density := 1025\<rparr>"
  have pos: "depth ?p = 0.6" "lat ?p = 28" "lon ?p = - 135" "density ?p = 1025"
    by (simp_all add: released_particle_def)
  have h: "cons_temperature uniform_fieldset 0 (depth ?p) (lat ?p) (lon ?p) = Inr 15"
      "d_phy_field uniform_fieldset 0 (depth ?p) (lat ?p) (lon ?p) = Inr 0.05"
      "nd_phy_field uniform_fieldset 0 (depth ?p) (lat ?p) (lon ?p) = Inr 0.1"
      "tpp3_field uniform_fieldset 0 (depth ?p) (lat ?p) (lon ?p) = Inr 0.02"
      "abs_salinity uniform_fieldset 0 (depth ?p) (lat ?p) (lon ?p) = Inr 35"
      "W uniform_fieldset 0 (depth ?p) (lat ?p) (lon ?p) = Inr 0"
    by (simp_all add: uniform_fieldset_def add_constants_def uniform_field_def)
  have q: "(15::real) \<in> \<rat>" by simp
  have nz: "density ?p \<noteq> 0" by (simp add: pos)
  show ?thesis
    using profiles_viscosity [OF h q nz] h q nz
    by (simp only: pos Let_def) (simp add: pos)
qed

end
